theory Spec2Isabelle
  imports Main "HOL-Library.Sublist" "HOL-Library.AList"
begin

section \<open>Python values\<close>

text \<open>
  The listener works on the loosely typed dictionaries that the ShotGrid client returns.
  They are embedded as a small universe of Python values: dictionaries are association
  lists with string keys (the first binding of a key is the live one), and every
  operation that can raise in Python returns a sum whose left side is the exception.
\<close>

record datetime =
  dt_year :: nat
  dt_month :: nat
  dt_day :: nat
  dt_hour :: nat
  dt_minute :: nat
  dt_second :: nat
  dt_microsecond :: nat
  dt_utcoffset :: "int option"
    \<comment> \<open>offset of an aware datetime in whole seconds; \<open>None\<close> for a naive one\<close>

datatype pyval =
    PNone
  | PBool bool
  | PInt int
  | PStr string
  | PDateTime datetime
  | PList "pyval list"
  | PDict "(string \<times> pyval) list"

datatype py_error =
    KeyError string
  | AttributeError
  | TypeError
  | ValueError
  | Fault string  \<comment> \<open>an exception raised by a call to ShotGrid or to the AYON server\<close>

type_synonym 'a result = "py_error + 'a"

definition bind_err :: "'a result \<Rightarrow> ('a \<Rightarrow> 'b result) \<Rightarrow> 'b result" where
  "bind_err m f = (case m of Inl e \<Rightarrow> Inl e | Inr v \<Rightarrow> f v)"

text \<open>Truth value testing, as \<^verbatim>\<open>if x:\<close> and \<^verbatim>\<open>not x\<close> do it.\<close>

fun py_truthy :: "pyval \<Rightarrow> bool" where
  "py_truthy PNone = False"
| "py_truthy (PBool b) = b"
| "py_truthy (PInt n) = (n \<noteq> 0)"
| "py_truthy (PStr s) = (s \<noteq> [])"
| "py_truthy (PDateTime d) = True"
| "py_truthy (PList xs) = (xs \<noteq> [])"
| "py_truthy (PDict kvs) = (kvs \<noteq> [])"

text \<open>\<^verbatim>\<open>d[k]\<close>: a missing key raises KeyError, a value that is not a dictionary
  (None, a list or a string indexed by a string, an integer) raises TypeError.\<close>

fun py_subscript :: "pyval \<Rightarrow> string \<Rightarrow> pyval result" where
  "py_subscript (PDict kvs) k =
     (case map_of kvs k of None \<Rightarrow> Inl (KeyError k) | Some v \<Rightarrow> Inr v)"
| "py_subscript _ k = Inl TypeError"

text \<open>\<^verbatim>\<open>d.get(k, default)\<close>: only dictionaries have the method.\<close>

fun py_get :: "pyval \<Rightarrow> string \<Rightarrow> pyval \<Rightarrow> pyval result" where
  "py_get (PDict kvs) k dflt =
     (case map_of kvs k of None \<Rightarrow> Inr dflt | Some v \<Rightarrow> Inr v)"
| "py_get _ k dflt = Inl AttributeError"

text \<open>\<^verbatim>\<open>d[k] = v\<close> on a dictionary: an existing key keeps its position.\<close>

fun py_setitem :: "pyval \<Rightarrow> string \<Rightarrow> pyval \<Rightarrow> pyval result" where
  "py_setitem (PDict kvs) k v = Inr (PDict (AList.update k v kvs))"
| "py_setitem _ k v = Inl TypeError"

text \<open>The field of a dictionary, for stating properties: \<open>None\<close> when the key is absent
  or the value is no dictionary.\<close>

fun field :: "pyval \<Rightarrow> string \<Rightarrow> pyval option" where
  "field (PDict kvs) k = map_of kvs k"
| "field _ k = None"

subsection \<open>Strings\<close>

definition endswith :: "string \<Rightarrow> string \<Rightarrow> bool" where
  "endswith s suf = (length suf \<le> length s \<and> drop (length s - length suf) s = suf)"

text \<open>\<^verbatim>\<open>x.endswith(suf)\<close>: only strings have the method.\<close>

fun py_endswith :: "pyval \<Rightarrow> string \<Rightarrow> bool result" where
  "py_endswith (PStr s) suf = Inr (endswith s suf)"
| "py_endswith _ suf = Inl AttributeError"

text \<open>\<^verbatim>\<open>s.replace(old, new)\<close> replaces every non-overlapping occurrence of
  \<open>old\<close>, scanning from the left. With an empty \<open>old\<close> Python inserts \<open>new\<close>
  around every character.\<close>

function str_replace :: "string \<Rightarrow> string \<Rightarrow> string \<Rightarrow> string" where
  "str_replace old new s =
     (if old = [] then new @ concat (map (\<lambda>c. c # new) s)
      else if s = [] then []
      else if take (length old) s = old
        then new @ str_replace old new (drop (length old) s)
      else hd s # str_replace old new (tl s))"
  by pat_completeness auto
termination
  by (relation "measure (\<lambda>(old, new, s). length s)") auto

fun py_replace :: "pyval \<Rightarrow> string \<Rightarrow> string \<Rightarrow> string result" where
  "py_replace (PStr s) old new = Inr (str_replace old new s)"
| "py_replace _ old new = Inl AttributeError"

subsection \<open>Integers and their decimal text\<close>

definition digit_char :: "nat \<Rightarrow> char" where
  "digit_char d = char_of (48 + d)"

function dec_nat :: "nat \<Rightarrow> string" where
  "dec_nat n = (if n < 10 then [digit_char n] else dec_nat (n div 10) @ [digit_char (n mod 10)])"
  by pat_completeness auto
termination
  by (relation "measure id") auto

definition dec_int :: "int \<Rightarrow> string" where
  "dec_int i = (if i < 0 then CHR ''-'' # dec_nat (nat (- i)) else dec_nat (nat i))"

definition zfill :: "nat \<Rightarrow> string \<Rightarrow> string" where
  "zfill w s = replicate (w - length s) CHR ''0'' @ s"

definition is_digit :: "char \<Rightarrow> bool" where
  "is_digit c = (48 \<le> (of_char c :: nat) \<and> (of_char c :: nat) \<le> 57)"

definition is_space :: "char \<Rightarrow> bool" where
  "is_space c = (let n = (of_char c :: nat) in (9 \<le> n \<and> n \<le> 13) \<or> (28 \<le> n \<and> n \<le> 32))"

text \<open>The digits of an integer literal: groups of digits that single underscores may
  separate. \<open>digits_value acc s\<close> reads \<open>s\<close>, which starts with a digit.\<close>

fun digits_value :: "nat \<Rightarrow> string \<Rightarrow> nat option" where
  "digits_value acc [] = Some acc"
| "digits_value acc [c] =
     (if is_digit c then Some (10 * acc + (of_char c - 48)) else None)"
| "digits_value acc (c # d # s) =
     (if is_digit c then
        (if d = CHR ''_'' then
           (case s of [] \<Rightarrow> None
            | e # _ \<Rightarrow> if is_digit e then digits_value (10 * acc + (of_char c - 48)) s else None)
         else digits_value (10 * acc + (of_char c - 48)) (d # s))
      else None)"

definition strip :: "string \<Rightarrow> string" where
  "strip s = rev (dropWhile is_space (rev (dropWhile is_space s)))"

text \<open>\<^verbatim>\<open>int(s)\<close> for a string in base ten: surrounding white space, an optional sign,
  then the digits. Strings are byte strings here, so digits and spaces outside ASCII are
  not read.\<close>

definition parse_int :: "string \<Rightarrow> int option" where
  "parse_int s =
     (case strip s of
        [] \<Rightarrow> None
      | c # r \<Rightarrow>
          (if c = CHR ''-'' then (if r = [] then None else map_option (\<lambda>n. - int n) (digits_value 0 r))
           else if c = CHR ''+'' then (if r = [] then None else map_option int (digits_value 0 r))
           else map_option int (digits_value 0 (c # r))))"

fun py_int :: "pyval \<Rightarrow> int result" where
  "py_int (PInt n) = Inr n"
| "py_int (PBool b) = Inr (if b then 1 else 0)"
| "py_int (PStr s) = (case parse_int s of None \<Rightarrow> Inl ValueError | Some n \<Rightarrow> Inr n)"
| "py_int _ = Inl TypeError"

subsection \<open>Datetimes\<close>

text \<open>\<^verbatim>\<open>datetime.isoformat(sep)\<close>: date, separator, time, the microseconds when they are
  not zero, and the offset of an aware datetime (with its seconds when they are not
  zero).\<close>

definition utcoffset_text :: "int \<Rightarrow> string" where
  "utcoffset_text off =
     (let a = nat \<bar>off\<bar>; hh = a div 3600; mm = (a mod 3600) div 60; ss = a mod 60
      in (if off < 0 then ''-'' else ''+'') @ zfill 2 (dec_nat hh) @ '':'' @ zfill 2 (dec_nat mm)
         @ (if ss = 0 then [] else '':'' @ zfill 2 (dec_nat ss)))"

definition isoformat_sep :: "char \<Rightarrow> datetime \<Rightarrow> string" where
  "isoformat_sep sep d =
     zfill 4 (dec_nat (dt_year d)) @ ''-'' @ zfill 2 (dec_nat (dt_month d)) @ ''-''
       @ zfill 2 (dec_nat (dt_day d)) @ [sep]
       @ zfill 2 (dec_nat (dt_hour d)) @ '':'' @ zfill 2 (dec_nat (dt_minute d)) @ '':''
       @ zfill 2 (dec_nat (dt_second d))
       @ (if dt_microsecond d = 0 then [] else ''.'' @ zfill 6 (dec_nat (dt_microsecond d)))
       @ (case dt_utcoffset d of None \<Rightarrow> [] | Some off \<Rightarrow> utcoffset_text off)"

definition isoformat :: "datetime \<Rightarrow> string" where
  "isoformat d = isoformat_sep CHR ''T'' d"

text \<open>\<^verbatim>\<open>x.isoformat()\<close>: only datetimes have the method.\<close>

fun py_isoformat :: "pyval \<Rightarrow> pyval result" where
  "py_isoformat (PDateTime d) = Inr (PStr (isoformat d))"
| "py_isoformat _ = Inl AttributeError"

text \<open>The text an f-string puts in for a value (\<^verbatim>\<open>str(x)\<close>). It is exact for None,
  booleans, integers, strings and datetimes, the values ShotGrid supplies for an event type
  and a user name. Python prints a list or a dictionary through \<^verbatim>\<open>repr\<close> of its
  elements, which is not modelled: they are shown by their brackets only.\<close>

fun py_format :: "pyval \<Rightarrow> string" where
  "py_format PNone = ''None''"
| "py_format (PBool b) = (if b then ''True'' else ''False'')"
| "py_format (PInt n) = dec_int n"
| "py_format (PStr s) = s"
| "py_format (PDateTime d) = isoformat_sep CHR '' '' d"
| "py_format (PList xs) = ''[...]''"
| "py_format (PDict kvs) = ''{...}''"

section \<open>Settings and the two external systems\<close>

text \<open>
  The module \<^verbatim>\<open>constants\<close> is not part of the sources at hand, so its two
  constants are taken as parameters and kept with the listener's attributes.
  An event-name template of \<^verbatim>\<open>SG_EVENT_TYPES\<close> is held in parsed form: literal
  text and the replacement field \<^verbatim>\<open>{0}\<close> that \<^verbatim>\<open>str.format\<close> fills in.
\<close>

datatype piece = Lit string | Arg0

type_synonym template = "piece list"

definition format_template :: "template \<Rightarrow> string \<Rightarrow> string" where
  "format_template t x = concat (map (\<lambda>p. case p of Lit s \<Rightarrow> s | Arg0 \<Rightarrow> x) t)"

record listener =
  sg_project_code_field :: string
  custom_attribs_map :: "(string \<times> string) list"
  sg_enabled_entities :: "string list"
  shotgrid_polling_frequency :: int
  SG_EVENT_TYPES :: "template list"
  SG_EVENT_QUERY_FIELDS :: "string list"

text \<open>
  ShotGrid (the source) and the AYON server (the sink) are reached through client
  libraries that are no part of this repository. They are modelled from the interface
  that the listener uses:
  ShotGrid holds projects and an append-only event log whose entries carry an integer id;
  \<^verbatim>\<open>find\<close> returns the entries that satisfy every filter, in the order asked for and up
  to the limit, each with the requested fields (a field without a value reads None);
  the AYON server keeps the dispatched events, oldest first, and \<^verbatim>\<open>get_events\<close>
  yields those whose topic is among the topics asked for.
  Any call to either system may raise: \<open>faults\<close> is the plan of what the coming calls do
  (\<open>Some e\<close>: the call raises \<open>e\<close>), and \<open>trace\<close> records the calls issued and the sleeps.
\<close>

record sg_project =
  prj_id :: int
  prj_auto_sync :: bool
  prj_fields :: "(string \<times> pyval) list"

record sg_event_entry =
  entry_id :: int
  entry_fields :: "(string \<times> pyval) list"

record ayon_event =
  ev_topic :: string
  ev_sender :: string
  ev_hash :: pyval
  ev_project_name :: pyval
  ev_username :: pyval
  ev_description :: string
  ev_summary :: pyval
  ev_payload :: pyval

datatype sg_filter =
    ProjectIn "pyval list"     \<comment> \<open>\<^verbatim>\<open>["project", "in", sg_projects]\<close>\<close>
  | EventTypeIn "string list"  \<comment> \<open>\<^verbatim>\<open>["event_type", "in", sg_event_types]\<close>\<close>
  | IdGreaterThan pyval        \<comment> \<open>\<^verbatim>\<open>["id", "greater_than", last_event_id]\<close>\<close>

datatype call =
    SgFindProjects
  | SgFindEvents "sg_filter list"
  | SgFindOneEvent "sg_filter list"
  | SgFindOneProject pyval
  | AyonGetEvents "string list"
  | AyonDispatchEvent string pyval
  | Sleep int

datatype log_entry =
    LogInfoStart
  | LogDebugWaiting nat int
  | LogInfoFound nat
  | LogInfoIgnoring pyval
  | LogErrorTraceback py_error
  | LogInfoDispatched pyval

record world =
  sg_projects :: "sg_project list"
  sg_event_log :: "sg_event_entry list"
  ayon_events :: "ayon_event list"
  hostname :: string
  faults :: "py_error option list"
  trace :: "call list"
  logged :: "log_entry list"

definition log_msg :: "log_entry \<Rightarrow> world \<Rightarrow> world" where
  "log_msg m w = w\<lparr>logged := logged w @ [m]\<rparr>"

text \<open>\<^verbatim>\<open>time.sleep(secs)\<close> raises ValueError for a negative length.\<close>

definition py_sleep :: "int \<Rightarrow> world \<Rightarrow> unit result \<times> world" where
  "py_sleep secs w =
     (if secs < 0 then (Inl ValueError, w) else (Inr (), w\<lparr>trace := trace w @ [Sleep secs]\<rparr>))"

definition external_call :: "call \<Rightarrow> world \<Rightarrow> py_error option \<times> world" where
  "external_call c w =
     (let w1 = w\<lparr>trace := trace w @ [c]\<rparr>
      in case faults w1 of [] \<Rightarrow> (None, w1) | f # fs \<Rightarrow> (f, w1\<lparr>faults := fs\<rparr>))"

definition requested_fields :: "string list \<Rightarrow> (string \<times> pyval) list \<Rightarrow> (string \<times> pyval) list" where
  "requested_fields fs kvs =
     map (\<lambda>f. (f, case map_of kvs f of None \<Rightarrow> PNone | Some v \<Rightarrow> v))
       (filter (\<lambda>f. f \<noteq> ''type'' \<and> f \<noteq> ''id'') (remdups fs))"

definition project_record :: "string list \<Rightarrow> sg_project \<Rightarrow> pyval" where
  "project_record fs p =
     PDict ((''type'', PStr ''Project'') # (''id'', PInt (prj_id p)) # requested_fields fs (prj_fields p))"

definition event_record :: "string list \<Rightarrow> sg_event_entry \<Rightarrow> pyval" where
  "event_record fs e =
     PDict ((''type'', PStr ''EventLogEntry'') # (''id'', PInt (entry_id e))
            # requested_fields fs (entry_fields e))"

definition entity_id :: "pyval \<Rightarrow> int option" where
  "entity_id v = (case field v ''id'' of Some (PInt n) \<Rightarrow> Some n | _ \<Rightarrow> None)"

fun sg_filter_typed :: "sg_filter \<Rightarrow> bool" where
  "sg_filter_typed (IdGreaterThan v) = (case v of PInt c \<Rightarrow> True | _ \<Rightarrow> False)"
| "sg_filter_typed _ = True"

fun sg_matches :: "sg_event_entry \<Rightarrow> sg_filter \<Rightarrow> bool" where
  "sg_matches e (ProjectIn ps) =
     (case map_of (entry_fields e) ''project'' of
        None \<Rightarrow> False
      | Some pr \<Rightarrow> (case entity_id pr of
                     None \<Rightarrow> False
                   | Some n \<Rightarrow> Some n \<in> set (map entity_id ps)))"
| "sg_matches e (EventTypeIn ts) =
     (case map_of (entry_fields e) ''event_type'' of
        Some (PStr t) \<Rightarrow> t \<in> set ts
      | _ \<Rightarrow> False)"
| "sg_matches e (IdGreaterThan v) = (case v of PInt c \<Rightarrow> c < entry_id e | _ \<Rightarrow> False)"

definition sg_select :: "sg_filter list \<Rightarrow> world \<Rightarrow> sg_event_entry list" where
  "sg_select filters w =
     sort_key entry_id (filter (\<lambda>e. list_all (sg_matches e) filters) (sg_event_log w))"

text \<open>\<^verbatim>\<open>sg_session.find("Project", filters=[["sg_ayon_auto_sync", "is", True]])\<close>\<close>

definition sg_find_projects :: "world \<Rightarrow> pyval list result \<times> world" where
  "sg_find_projects w =
     (case external_call SgFindProjects w of
        (Some e, w1) \<Rightarrow> (Inl e, w1)
      | (None, w1) \<Rightarrow> (Inr (map (project_record []) (filter prj_auto_sync (sg_projects w1))), w1))"

text \<open>\<^verbatim>\<open>sg_session.find("EventLogEntry", sg_filters, fields, order=[id asc], limit=50)\<close>.
  ShotGrid rejects a filter on the id whose value is no integer.\<close>

definition sg_find_events :: "sg_filter list \<Rightarrow> string list \<Rightarrow> world \<Rightarrow> pyval list result \<times> world" where
  "sg_find_events filters fs w =
     (case external_call (SgFindEvents filters) w of
        (Some e, w1) \<Rightarrow> (Inl e, w1)
      | (None, w1) \<Rightarrow>
          (if \<not> list_all sg_filter_typed filters then (Inl (Fault ''invalid filter value''), w1)
           else (Inr (map (event_record fs) (take 50 (sg_select filters w1))), w1)))"

text \<open>\<^verbatim>\<open>sg_session.find_one("EventLogEntry", filters, fields, order=[id desc])\<close>\<close>

definition sg_find_one_event :: "sg_filter list \<Rightarrow> string list \<Rightarrow> world \<Rightarrow> pyval result \<times> world" where
  "sg_find_one_event filters fs w =
     (case external_call (SgFindOneEvent filters) w of
        (Some e, w1) \<Rightarrow> (Inl e, w1)
      | (None, w1) \<Rightarrow>
          (if \<not> list_all sg_filter_typed filters then (Inl (Fault ''invalid filter value''), w1)
           else (case rev (sg_select filters w1) of
                   [] \<Rightarrow> (Inr PNone, w1)
                 | e # _ \<Rightarrow> (Inr (event_record fs e), w1))))"

text \<open>\<^verbatim>\<open>sg_session.find_one("Project", [["id", "is", project_id]], fields=[code_field])\<close>\<close>

definition sg_find_one_project :: "pyval \<Rightarrow> string list \<Rightarrow> world \<Rightarrow> pyval result \<times> world" where
  "sg_find_one_project project_id fs w =
     (case external_call (SgFindOneProject project_id) w of
        (Some e, w1) \<Rightarrow> (Inl e, w1)
      | (None, w1) \<Rightarrow>
          (case project_id of
             PInt n \<Rightarrow> (case filter (\<lambda>p. prj_id p = n) (sg_projects w1) of
                          [] \<Rightarrow> (Inr PNone, w1)
                        | p # _ \<Rightarrow> (Inr (project_record fs p), w1))
           | _ \<Rightarrow> (Inl (Fault ''invalid filter value''), w1)))"

text \<open>\<^verbatim>\<open>ayon_api.get_events(topics=topics, fields=["hash"])\<close>\<close>

definition ayon_get_events :: "string list \<Rightarrow> world \<Rightarrow> pyval list result \<times> world" where
  "ayon_get_events topics w =
     (case external_call (AyonGetEvents topics) w of
        (Some e, w1) \<Rightarrow> (Inl e, w1)
      | (None, w1) \<Rightarrow>
          (Inr (map (\<lambda>ev. PDict [(''hash'', ev_hash ev)])
                 (filter (\<lambda>ev. ev_topic ev \<in> set topics) (ayon_events w1))), w1))"

text \<open>\<^verbatim>\<open>ayon_api.dispatch_event(topic, sender=..., event_hash=..., ...)\<close>\<close>

definition ayon_dispatch_event :: "ayon_event \<Rightarrow> world \<Rightarrow> unit result \<times> world" where
  "ayon_dispatch_event ev w =
     (case external_call (AyonDispatchEvent (ev_topic ev) (ev_hash ev)) w of
        (Some e, w1) \<Rightarrow> (Inl e, w1)
      | (None, w1) \<Rightarrow> (Inr (), w1\<lparr>ayon_events := ayon_events w1 @ [ev]\<rparr>))"

section \<open>The listener\<close>

text \<open>\<^verbatim>\<open>_get_supported_event_types\<close>: every template, for every enabled entity.\<close>

definition get_supported_event_types :: "listener \<Rightarrow> string list" where
  "get_supported_event_types L =
     concat (map (\<lambda>entity_type. map (\<lambda>event_name. format_template event_name entity_type)
                                   (SG_EVENT_TYPES L))
                 (sg_enabled_entities L))"

text \<open>\<^verbatim>\<open>_build_shotgrid_filters\<close>\<close>

definition build_shotgrid_filters :: "listener \<Rightarrow> world \<Rightarrow> sg_filter list result \<times> world" where
  "build_shotgrid_filters L w =
     (case sg_find_projects w of
        (Inl e, w1) \<Rightarrow> (Inl e, w1)
      | (Inr sg_projs, w1) \<Rightarrow>
          (if sg_projs = [] then (Inr [], w1)
           else (let filters = [ProjectIn sg_projs];
                     sg_event_types = get_supported_event_types L
                 in (Inr (if sg_event_types \<noteq> [] then filters @ [EventTypeIn sg_event_types]
                          else filters), w1))))"

text \<open>The \<^verbatim>\<open>for\<close> loop of \<^verbatim>\<open>_get_last_event_processed\<close>: the loop variable is bound
  to each record in turn and then overwritten by the integer read from its hash, so the
  last record decides, and a record whose hash is no integer raises.\<close>

fun scan_events :: "pyval \<Rightarrow> pyval list \<Rightarrow> pyval result" where
  "scan_events last_event_id [] = Inr last_event_id"
| "scan_events last_event_id (r # rs) =
     bind_err (py_subscript r ''hash'') (\<lambda>h.
     bind_err (py_int h) (\<lambda>n. scan_events (PInt n) rs))"

text \<open>\<^verbatim>\<open>_get_last_event_processed\<close>\<close>

definition get_last_event_processed :: "listener \<Rightarrow> sg_filter list \<Rightarrow> world \<Rightarrow> pyval result \<times> world" where
  "get_last_event_processed L sg_filters w =
     (case ayon_get_events [''shotgrid.leech''] w of
        (Inl e, w1) \<Rightarrow> (Inl e, w1)
      | (Inr records, w1) \<Rightarrow>
          (case scan_events PNone records of
             Inl e \<Rightarrow> (Inl e, w1)
           | Inr last_event_id \<Rightarrow>
               (if \<not> py_truthy last_event_id then
                  (case sg_find_one_event sg_filters [''id'', ''project''] w1 of
                     (Inl e, w2) \<Rightarrow> (Inl e, w2)
                   | (Inr last_event, w2) \<Rightarrow> (py_subscript last_event ''id'', w2))
                else (Inr last_event_id, w1))))"

text \<open>\<^verbatim>\<open>_is_api_user_event\<close> returns True or (implicitly) None, read as a truth value.\<close>

definition is_api_user_event :: "pyval \<Rightarrow> bool result" where
  "is_api_user_event event =
     bind_err (py_get event ''meta'' (PDict [])) (\<lambda>meta.
     bind_err (py_get meta ''sudo_actual_user'' (PDict [])) (\<lambda>sudo.
     bind_err (py_get sudo ''type'' PNone) (\<lambda>t. Inr (t = PStr ''ApiUser''))))"

text \<open>\<^verbatim>\<open>send_shotgrid_event_to_ayon\<close>. The payload is changed in place, so the payload
  as the call leaves it is returned next to the result.\<close>

definition describe_event :: "pyval \<Rightarrow> (string \<times> pyval) result" where
  "describe_event payload =
     bind_err (py_subscript payload ''event_type'') (\<lambda>event_type.
     bind_err (py_get payload ''user'' (PDict [])) (\<lambda>user.
     bind_err (py_get user ''name'' (PStr ''Undefined'')) (\<lambda>user_name.
       Inr (if py_truthy user_name
            then ''Leeched '' @ py_format event_type @ '' by '' @ py_format user_name
            else ''Leeched '' @ py_format event_type, user_name))))"

definition fix_created_at :: "pyval \<Rightarrow> pyval result" where
  "fix_created_at payload =
     bind_err (py_subscript payload ''created_at'') (\<lambda>created_at.
     bind_err (py_isoformat created_at) (\<lambda>iso. py_setitem payload ''created_at'' iso))"

definition owning_project :: "pyval \<Rightarrow> (pyval \<times> pyval) result" where
  "owning_project payload =
     bind_err (py_get payload ''meta'' (PDict [])) (\<lambda>meta.
     bind_err (py_get meta ''entity_type'' (PStr ''Undefined'')) (\<lambda>entity_type.
     bind_err (py_get payload (if entity_type = PStr ''Project'' then ''entity'' else ''project'')
                 (PDict [])) (\<lambda>ent.
     bind_err (py_get ent ''name'' (PStr ''Undefined'')) (\<lambda>project_name.
     bind_err (py_get ent ''id'' (PStr ''Undefined'')) (\<lambda>project_id.
       Inr (project_name, project_id))))))"

definition send_shotgrid_event_to_ayon ::
    "listener \<Rightarrow> pyval \<Rightarrow> world \<Rightarrow> pyval result \<times> pyval \<times> world" where
  "send_shotgrid_event_to_ayon L payload w =
     (case describe_event payload of
        Inl e \<Rightarrow> (Inl e, payload, w)
      | Inr (description, user_name) \<Rightarrow>
     (case fix_created_at payload of
        Inl e \<Rightarrow> (Inl e, payload, w)
      | Inr payload1 \<Rightarrow>
     (case owning_project payload1 of
        Inl e \<Rightarrow> (Inl e, payload1, w)
      | Inr (project_name, project_id) \<Rightarrow>
     (case sg_find_one_project project_id [sg_project_code_field L] w of
        (Inl e, w1) \<Rightarrow> (Inl e, payload1, w1)
      | (Inr sg_project, w1) \<Rightarrow>
     (case py_subscript payload1 ''id'' of
        Inl e \<Rightarrow> (Inl e, payload1, w1)
      | Inr event_hash \<Rightarrow>
     (case py_get sg_project (sg_project_code_field L) PNone of
        Inl e \<Rightarrow> (Inl e, payload1, w1)
      | Inr project_code \<Rightarrow>
     (case ayon_dispatch_event
             \<lparr>ev_topic = ''shotgrid.event'',
              ev_sender = hostname w1,
              ev_hash = event_hash,
              ev_project_name = project_name,
              ev_username = user_name,
              ev_description = description,
              ev_summary = PNone,
              ev_payload = PDict
                [(''action'', PStr ''shotgrid-event''),
                 (''user_name'', user_name),
                 (''project_name'', project_name),
                 (''project_code'', project_code),
                 (''project_code_field'', PStr (sg_project_code_field L)),
                 (''sg_payload'', payload1)]\<rparr> w1 of
        (Inl e, w2) \<Rightarrow> (Inl e, payload1, w2)
      | (Inr u, w2) \<Rightarrow>
          (py_subscript payload1 ''id'', payload1, log_msg (LogInfoDispatched payload1) w2))))))))"

text \<open>The function the loop hands accepted events to (\<^verbatim>\<open>self.func\<close>): any callable
  given to the constructor, or \<^verbatim>\<open>send_shotgrid_event_to_ayon\<close> by default.\<close>

type_synonym func = "pyval \<Rightarrow> world \<Rightarrow> pyval result \<times> world"

definition default_func :: "listener \<Rightarrow> func" where
  "default_func L payload w =
     (case send_shotgrid_event_to_ayon L payload w of (r, payload1, w1) \<Rightarrow> (r, w1))"

section \<open>The poll loop\<close>

text \<open>The two tests of the loop body on an event: a change of a mapped custom attribute,
  and an event type among the supported ones. \<^verbatim>\<open>and\<close> evaluates its right side only
  when the left side holds. The values of the attribute map are those of its live
  bindings.\<close>

definition is_custom_attrib_change :: "listener \<Rightarrow> pyval \<Rightarrow> bool result" where
  "is_custom_attrib_change L event =
     bind_err (py_subscript event ''event_type'') (\<lambda>event_type.
     bind_err (py_endswith event_type ''_Change'') (\<lambda>is_change.
       if \<not> is_change then Inr False
       else bind_err (py_subscript event ''attribute_name'') (\<lambda>attribute_name.
            bind_err (py_replace attribute_name ''sg_'' []) (\<lambda>name.
              Inr (name \<in> set (map snd (AList.clearjunk (custom_attribs_map L))))))))"

definition is_supported_event :: "string list \<Rightarrow> pyval \<Rightarrow> bool result" where
  "is_supported_event supported_event_types event =
     bind_err (py_subscript event ''event_type'') (\<lambda>event_type.
       Inr (case event_type of PStr t \<Rightarrow> t \<in> set supported_event_types | _ \<Rightarrow> False))"

text \<open>The body shared by both branches: the event's id unless an API user caused it.\<close>

definition id_unless_api_user :: "pyval \<Rightarrow> pyval result" where
  "id_unless_api_user event =
     bind_err (is_api_user_event event) (\<lambda>api.
       if \<not> api then py_get event ''id'' PNone else Inr PNone)"

text \<open>The \<^verbatim>\<open>if\<close>/\<^verbatim>\<open>elif\<close> of the loop body: the value of \<^verbatim>\<open>last_event_id\<close> after
  it, from its value before. There is no \<^verbatim>\<open>else\<close>: an event that passes neither test
  leaves the variable as it was.\<close>

definition classify :: "listener \<Rightarrow> string list \<Rightarrow> pyval \<Rightarrow> pyval \<Rightarrow> pyval result" where
  "classify L supported_event_types event last_event_id =
     bind_err (is_custom_attrib_change L event) (\<lambda>custom.
       if custom then id_unless_api_user event
       else bind_err (is_supported_event supported_event_types event) (\<lambda>supported.
              if supported then id_unless_api_user event else Inr last_event_id))"

text \<open>The \<^verbatim>\<open>for event in events\<close> loop. The result is the exception that ended it (if one
  did), \<^verbatim>\<open>last_event_id\<close> and the world as the loop leaves them, and the events that were
  handed to \<^verbatim>\<open>self.func\<close>, in order.\<close>

fun for_events ::
    "listener \<Rightarrow> func \<Rightarrow> string list \<Rightarrow> pyval list \<Rightarrow> pyval \<Rightarrow> world
      \<Rightarrow> py_error option \<times> pyval \<times> world \<times> pyval list" where
  "for_events L f types [] last_event_id w = (None, last_event_id, w, [])"
| "for_events L f types (event # events) last_event_id w =
     (if \<not> py_truthy event then for_events L f types events last_event_id w
      else (case classify L types event last_event_id of
              Inl e \<Rightarrow> (Some e, last_event_id, w, [])
            | Inr last_event_id1 \<Rightarrow>
                (if \<not> py_truthy last_event_id1
                 then for_events L f types events last_event_id1 (log_msg (LogInfoIgnoring event) w)
                 else (case f event w of
                         (Inl e, w1) \<Rightarrow> (Some e, last_event_id1, w1, [event])
                       | (Inr last_event_id2, w1) \<Rightarrow>
                           (case for_events L f types events last_event_id2 w1 of
                              (r, c, w2, handed) \<Rightarrow> (r, c, w2, event # handed))))))"

record lstate =
  base_sg_filters :: "sg_filter list"
  last_event_id :: pyval
  world :: world

text \<open>The \<^verbatim>\<open>try\<close> block of the loop body, from a known cursor: the exception it raised
  (if any), whether it ended in the \<^verbatim>\<open>continue\<close> of the empty batch, the cursor, the
  world, and the events handed to \<^verbatim>\<open>self.func\<close>.\<close>

definition try_block ::
    "listener \<Rightarrow> func \<Rightarrow> string list \<Rightarrow> sg_filter list \<Rightarrow> pyval \<Rightarrow> world
      \<Rightarrow> py_error option \<times> bool \<times> pyval \<times> world \<times> pyval list" where
  "try_block L f types sg_filters cursor w =
     (case sg_find_events sg_filters (SG_EVENT_QUERY_FIELDS L) w of
        (Inl e, w1) \<Rightarrow> (Some e, False, cursor, w1, [])
      | (Inr events, w1) \<Rightarrow>
          (if events = [] then
             (case py_sleep (shotgrid_polling_frequency L)
                     (log_msg (LogDebugWaiting 1 (shotgrid_polling_frequency L)) w1) of
                (Inl e, w2) \<Rightarrow> (Some e, False, cursor, w2, [])
              | (Inr u, w2) \<Rightarrow> (None, True, cursor, w2, []))
           else (case for_events L f types events cursor (log_msg (LogInfoFound (length events)) w1) of
                   (r, c, w2, handed) \<Rightarrow> (r, False, c, w2, handed))))"

text \<open>The loop body after the cursor is known: the query filters, the \<^verbatim>\<open>try\<close> block, its
  \<^verbatim>\<open>except Exception\<close> handler, and the sleep that ends the iteration.\<close>

definition poll ::
    "listener \<Rightarrow> func \<Rightarrow> string list \<Rightarrow> sg_filter list \<Rightarrow> pyval \<Rightarrow> world
      \<Rightarrow> unit result \<times> pyval \<times> world \<times> pyval list" where
  "poll L f types base cursor w =
     (case try_block L f types (base @ [IdGreaterThan cursor]) cursor w of
        (r, continued, c, w1, handed) \<Rightarrow>
          (if continued then (Inr (), c, w1, handed)
           else (let w2 = (case r of None \<Rightarrow> w1 | Some e \<Rightarrow> log_msg (LogErrorTraceback e) w1)
                 in case py_sleep (shotgrid_polling_frequency L)
                           (log_msg (LogDebugWaiting 2 (shotgrid_polling_frequency L)) w2) of
                      (Inl e, w3) \<Rightarrow> (Inl e, c, w3, handed)
                    | (Inr u, w3) \<Rightarrow> (Inr (), c, w3, handed))))"

text \<open>One pass through the body of \<^verbatim>\<open>while True\<close>. \<open>Inl e\<close>: the exception \<open>e\<close> left
  the body, and with it \<^verbatim>\<open>start_listening\<close>.\<close>

definition loop_iteration ::
    "listener \<Rightarrow> func \<Rightarrow> string list \<Rightarrow> lstate \<Rightarrow> unit result \<times> lstate \<times> pyval list" where
  "loop_iteration L f types s =
     (if base_sg_filters s = [] then
        (case py_sleep (shotgrid_polling_frequency L)
                (log_msg (LogDebugWaiting 0 (shotgrid_polling_frequency L)) (world s)) of
           (Inl e, w1) \<Rightarrow> (Inl e, s\<lparr>world := w1\<rparr>, [])
         | (Inr u, w1) \<Rightarrow>
             (case build_shotgrid_filters L w1 of
                (Inl e, w2) \<Rightarrow> (Inl e, s\<lparr>world := w2\<rparr>, [])
              | (Inr filters, w2) \<Rightarrow> (Inr (), s\<lparr>base_sg_filters := filters, world := w2\<rparr>, [])))
      else if \<not> py_truthy (last_event_id s) then
        (case get_last_event_processed L (base_sg_filters s) (world s) of
           (Inl e, w1) \<Rightarrow> (Inl e, s\<lparr>world := w1\<rparr>, [])
         | (Inr cursor, w1) \<Rightarrow>
             (case poll L f types (base_sg_filters s) cursor w1 of
                (r, c, w2, handed) \<Rightarrow> (r, s\<lparr>last_event_id := c, world := w2\<rparr>, handed)))
      else
        (case poll L f types (base_sg_filters s) (last_event_id s) (world s) of
           (r, c, w2, handed) \<Rightarrow> (r, s\<lparr>last_event_id := c, world := w2\<rparr>, handed)))"

text \<open>The loop never ends by itself, so it is run for a number of iterations: \<open>Inl\<close> is
  the exception that ended it, \<open>Inr\<close> the state after that many iterations.\<close>

fun listen_loop :: "listener \<Rightarrow> func \<Rightarrow> string list \<Rightarrow> nat \<Rightarrow> lstate \<Rightarrow> py_error \<times> lstate + lstate" where
  "listen_loop L f types 0 s = Inr s"
| "listen_loop L f types (Suc n) s =
     (case loop_iteration L f types s of
        (Inl e, s1, handed) \<Rightarrow> Inl (e, s1)
      | (Inr u, s1, handed) \<Rightarrow> listen_loop L f types n s1)"

text \<open>\<^verbatim>\<open>start_listening\<close>, for \<open>n\<close> iterations of its loop.\<close>

definition start_listening :: "listener \<Rightarrow> func \<Rightarrow> nat \<Rightarrow> world \<Rightarrow> py_error \<times> world + lstate" where
  "start_listening L f n w =
     (case build_shotgrid_filters L (log_msg LogInfoStart w) of
        (Inl e, w1) \<Rightarrow> Inl (e, w1)
      | (Inr base, w1) \<Rightarrow>
          (case get_last_event_processed L base w1 of
             (Inl e, w2) \<Rightarrow> Inl (e, w2)
           | (Inr cursor, w2) \<Rightarrow>
               (case listen_loop L f (get_supported_event_types L) n
                       \<lparr>base_sg_filters = base, last_event_id = cursor, world = w2\<rparr> of
                  Inl (e, s) \<Rightarrow> Inl (e, world s)
                | Inr s \<Rightarrow> Inr s)))"

section \<open>A concrete installation\<close>

text \<open>One listener, one synced project and a short event log, used to run the code on
  concrete inputs. Shots are the only enabled entity; the custom attribute \<open>status\<close> is
  mapped to the ShotGrid field \<open>status_list\<close>.\<close>

definition ex_listener :: listener where
  "ex_listener =
     \<lparr>sg_project_code_field = ''code'',
      custom_attribs_map = [(''status'', ''status_list''), (''tags'', ''tags'')],
      sg_enabled_entities = [''Shot''],
      shotgrid_polling_frequency = 10,
      SG_EVENT_TYPES = [[Lit ''Shotgun_'', Arg0, Lit ''_New''], [Lit ''Shotgun_'', Arg0, Lit ''_Change'']],
      SG_EVENT_QUERY_FIELDS = [''event_type'', ''attribute_name'', ''meta'', ''user'', ''project'',
                               ''created_at'']\<rparr>"

definition ex_time :: datetime where
  "ex_time = \<lparr>dt_year = 2024, dt_month = 3, dt_day = 7, dt_hour = 9, dt_minute = 5,
              dt_second = 0, dt_microsecond = 0, dt_utcoffset = None\<rparr>"

definition ex_project_ref :: pyval where
  "ex_project_ref = PDict [(''type'', PStr ''Project''), (''id'', PInt 1), (''name'', PStr ''demo'')]"

definition ex_user :: pyval where
  "ex_user = PDict [(''type'', PStr ''HumanUser''), (''id'', PInt 7), (''name'', PStr ''Ada'')]"

definition ex_sudo_meta :: pyval where
  "ex_sudo_meta = PDict [(''sudo_actual_user'', PDict [(''type'', PStr ''ApiUser''), (''id'', PInt 3)])]"

definition ex_fields :: "string \<Rightarrow> string \<Rightarrow> pyval \<Rightarrow> (string \<times> pyval) list" where
  "ex_fields event_type attribute_name meta =
     [(''event_type'', PStr event_type), (''attribute_name'', PStr attribute_name),
      (''meta'', meta), (''user'', ex_user), (''project'', ex_project_ref),
      (''created_at'', PDateTime ex_time)]"

text \<open>An event as \<^verbatim>\<open>find\<close> returns it, and the same event as an entry of the log.\<close>

definition ex_event :: "int \<Rightarrow> string \<Rightarrow> string \<Rightarrow> pyval \<Rightarrow> pyval" where
  "ex_event n event_type attribute_name meta =
     PDict ((''type'', PStr ''EventLogEntry'') # (''id'', PInt n)
            # ex_fields event_type attribute_name meta)"

definition ex_entry :: "int \<Rightarrow> string \<Rightarrow> string \<Rightarrow> pyval \<Rightarrow> sg_event_entry" where
  "ex_entry n event_type attribute_name meta =
     \<lparr>entry_id = n, entry_fields = ex_fields event_type attribute_name meta\<rparr>"

definition ex_project :: sg_project where
  "ex_project = \<lparr>prj_id = 1, prj_auto_sync = True,
                 prj_fields = [(''name'', PStr ''demo''), (''code'', PStr ''dm'')]\<rparr>"

definition ex_world :: "sg_event_entry list \<Rightarrow> world" where
  "ex_world entries =
     \<lparr>sg_projects = [ex_project], sg_event_log = entries, ayon_events = [],
      hostname = ''leecher'', faults = [], trace = [], logged = []\<rparr>"

definition ex_filters :: "sg_filter list" where
  "ex_filters = [ProjectIn [PDict [(''type'', PStr ''Project''), (''id'', PInt 1)]],
                 EventTypeIn [''Shotgun_Shot_New'', ''Shotgun_Shot_Change'']]"

text \<open>A change of the mapped status field by a person (42), the same change made through
  the API under sudo (43), and a later creation by a person (44).\<close>

definition ev42 :: pyval where
  "ev42 = ex_event 42 ''Shotgun_Shot_Change'' ''sg_status_list'' (PDict [])"

definition ev43 :: pyval where
  "ev43 = ex_event 43 ''Shotgun_Shot_Change'' ''sg_status_list'' ex_sudo_meta"

definition ev44 :: pyval where
  "ev44 = ex_event 44 ''Shotgun_Shot_New'' ''sg_status_list'' (PDict [])"

definition ex_log :: "sg_event_entry list" where
  "ex_log = [ex_entry 42 ''Shotgun_Shot_Change'' ''sg_status_list'' (PDict []),
             ex_entry 43 ''Shotgun_Shot_Change'' ''sg_status_list'' ex_sudo_meta,
             ex_entry 44 ''Shotgun_Shot_New'' ''sg_status_list'' (PDict [])]"

text \<open>A function for \<^verbatim>\<open>self.func\<close> that acknowledges an event by returning its id and
  leaves both systems alone, and one that always fails.\<close>

definition ex_func :: func where
  "ex_func event w = (py_subscript event ''id'', w)"

definition ex_failing_func :: func where
  "ex_failing_func event w = (Inl (Fault ''sink down''), w)"

definition ex_types :: "string list" where
  "ex_types = get_supported_event_types ex_listener"

text \<open>A log entry without a user, and the event that \<^verbatim>\<open>find\<close> returns for it: the
  user is a requested field, so it reads None.\<close>

definition ex_entry_no_user :: sg_event_entry where
  "ex_entry_no_user =
     \<lparr>entry_id = 48,
      entry_fields = [(''event_type'', PStr ''Shotgun_Shot_Change''),
                      (''attribute_name'', PStr ''sg_status_list''), (''meta'', PDict []),
                      (''project'', ex_project_ref), (''created_at'', PDateTime ex_time)]\<rparr>"

definition ev48 :: pyval where
  "ev48 =
     PDict [(''type'', PStr ''EventLogEntry''), (''id'', PInt 48),
            (''event_type'', PStr ''Shotgun_Shot_Change''), (''attribute_name'', PStr ''sg_status_list''),
            (''meta'', PDict []), (''user'', PNone), (''project'', ex_project_ref),
            (''created_at'', PDateTime ex_time)]"


text \<open>The installation before any project is synced, in the loop with no filters.\<close>

definition ex_idle_world :: world where
  "ex_idle_world = (ex_world ex_log)\<lparr>sg_projects := [ex_project\<lparr>prj_auto_sync := False\<rparr>]\<rparr>"

definition ex_idle_state :: lstate where
  "ex_idle_state = \<lparr>base_sg_filters = [], last_event_id = PInt 41, world = ex_idle_world\<rparr>"

text \<open>The loop with filters and a known cursor, over the whole log and over its first
  entry only.\<close>

definition ex_state :: lstate where
  "ex_state = \<lparr>base_sg_filters = ex_filters, last_event_id = PInt 41, world = ex_world ex_log\<rparr>"

definition ex_state_one_event :: lstate where
  "ex_state_one_event = ex_state\<lparr>world := ex_world (take 1 ex_log)\<rparr>"

definition ex_state_two_events :: lstate where
  "ex_state_two_events = ex_state\<lparr>world := ex_world (take 2 ex_log)\<rparr>"

text \<open>The loop over a log that holds only the entry without a user, and the loop that has
  no filters yet although the project is synced.\<close>

definition ex_state_no_user :: lstate where
  "ex_state_no_user = ex_state\<lparr>world := ex_world [ex_entry_no_user]\<rparr>"

definition ex_state_unfiltered :: lstate where
  "ex_state_unfiltered = ex_state\<lparr>base_sg_filters := []\<rparr>"

text \<open>The idle installation where the fourth call to an external system fails.\<close>

definition ex_faulty_idle_world :: world where
  "ex_faulty_idle_world = ex_idle_world\<lparr>faults := [None, None, None, Some (Fault ''connection lost'')]\<rparr>"

text \<open>The same listener with no enabled entity: no event type is supported and the query
  filters on the project only. Event 50 changes a field that is not mapped.\<close>

definition ex_listener_no_entities :: listener where
  "ex_listener_no_entities = ex_listener\<lparr>sg_enabled_entities := []\<rparr>"

definition ev50 :: pyval where
  "ev50 = ex_event 50 ''Shotgun_Shot_Change'' ''sg_description'' (PDict [])"

definition ex_state_no_entities :: lstate where
  "ex_state_no_entities =
     \<lparr>base_sg_filters = [ProjectIn [PDict [(''type'', PStr ''Project''), (''id'', PInt 1)]]],
      last_event_id = PInt 41,
      world = ex_world [ex_entry 50 ''Shotgun_Shot_Change'' ''sg_description'' (PDict [])]\<rparr>"


section \<open>Basic facts about the embedding\<close>

lemma py_subscript_Inr: "py_subscript p k = Inr v \<Longrightarrow> field p k = Some v"
  by (cases p) (auto split: option.splits)

lemma external_call_fields:
  assumes "external_call c w = (r, w1)"
  shows "trace w1 = trace w @ [c]" "ayon_events w1 = ayon_events w" "sg_projects w1 = sg_projects w"
    "sg_event_log w1 = sg_event_log w" "logged w1 = logged w" "hostname w1 = hostname w"
  using assms by (auto simp: external_call_def Let_def split: list.splits)

lemma sg_find_one_project_fields:
  assumes "sg_find_one_project pid fs w = (r, w1)"
  shows "ayon_events w1 = ayon_events w" "trace w1 = trace w @ [SgFindOneProject pid]"
  using assms
  by (auto simp: sg_find_one_project_def split: prod.splits option.splits pyval.splits list.splits
      dest: external_call_fields)

lemma ayon_dispatch_event_ok:
  assumes "ayon_dispatch_event ev w = (Inr u, w1)"
  shows "ayon_events w1 = ayon_events w @ [ev]"
  using assms
  by (auto simp: ayon_dispatch_event_def split: prod.splits option.splits dest: external_call_fields)

section \<open>Order of dispatch\<close>

lemma for_events_handed_subseq:
  "for_events L f types events c w = (r, c', w', handed) \<Longrightarrow> subseq handed events"
proof (induction events arbitrary: c w r c' w' handed)
  case Nil
  then show ?case by simp
next
  case (Cons event events)
  show ?case
  proof (cases "py_truthy event")
    case False
    with Cons.prems have "for_events L f types events c w = (r, c', w', handed)" by simp
    from Cons.IH[OF this] show ?thesis by (rule list_emb_Cons)
  next
    case True
    show ?thesis
    proof (cases "classify L types event c")
      case (Inl e)
      with True Cons.prems show ?thesis by simp
    next
      case (Inr c1)
      show ?thesis
      proof (cases "py_truthy c1")
        case False
        with True Inr Cons.prems
        have "for_events L f types events c1 (log_msg (LogInfoIgnoring event) w) = (r, c', w', handed)"
          by simp
        from Cons.IH[OF this] show ?thesis by (rule list_emb_Cons)
      next
        case c1: True
        obtain res w1 where fw: "f event w = (res, w1)" by (cases "f event w")
        show ?thesis
        proof (cases res)
          case (Inl e)
          with True Inr c1 fw Cons.prems show ?thesis by auto
        next
          case (Inr c2)
          obtain r2 c3 w2 h2 where rest: "for_events L f types events c2 w1 = (r2, c3, w2, h2)"
            by (cases "for_events L f types events c2 w1")
          from Cons.IH[OF rest] have "subseq h2 events" .
          moreover from True \<open>classify L types event c = Inr c1\<close> c1 fw Inr rest Cons.prems
          have "handed = event # h2" by simp
          ultimately show ?thesis by simp
        qed
      qed
    qed
  qed
qed

lemma subseq_of_map:
  assumes "subseq xs (map h ys)"
  shows "\<exists>ys'. xs = map h ys' \<and> subseq ys' ys \<and> (sorted ys \<longrightarrow> sorted (ys' :: int list))"
proof -
  from assms obtain N where "xs = nths (map h ys) N" by (auto simp: subseq_conv_nths)
  then have "xs = map h (nths ys N)" by (simp add: nths_map)
  moreover have "subseq (nths ys N) ys" by (auto simp: subseq_conv_nths)
  moreover have "sorted ys \<longrightarrow> sorted (nths ys N)" by (simp add: sorted_nths)
  ultimately show ?thesis by blast
qed

text \<open>
  C4. Whatever \<^verbatim>\<open>self.func\<close> is and whatever the cursor and the two systems are, the
  events that the \<^verbatim>\<open>for\<close> loop hands to \<^verbatim>\<open>self.func\<close> are, in the order of the calls, a
  subsequence of the fetched batch: the loop walks the batch from first to last and calls
  \<^verbatim>\<open>self.func\<close> on an event before it looks at the next one. So when the ids of the
  batch ascend, the ids handed over are a subsequence of them and ascend too.
\<close>

theorem dispatch_order:
  assumes run: "for_events L f types events cursor w = (r, c', w', handed)"
    and ids: "map (\<lambda>e. field e ''id'') events = map (\<lambda>n. Some (PInt n)) ids"
    and asc: "sorted ids"
  shows "subseq handed events \<and>
         (\<exists>ids'. map (\<lambda>e. field e ''id'') handed = map (\<lambda>n. Some (PInt n)) ids'
                  \<and> subseq ids' ids \<and> sorted ids')"
proof -
  have sub: "subseq handed events" using run by (rule for_events_handed_subseq)
  then have "subseq (map (\<lambda>e. field e ''id'') handed) (map (\<lambda>e. field e ''id'') events)"
    by (rule subseq_map)
  with ids have "subseq (map (\<lambda>e. field e ''id'') handed) (map (\<lambda>n. Some (PInt n)) ids)" by simp
  from subseq_of_map[OF this] asc sub show ?thesis by blast
qed

theorem dispatch_order_witness:
  "snd (snd (snd (for_events ex_listener ex_func ex_types [ev42, ev43, ev44] (PInt 41) (ex_world []))))
     = [ev42, ev44]
   \<and> map (\<lambda>e. field e ''id'') [ev42, ev43, ev44] = map (\<lambda>n. Some (PInt n)) [42, 43, 44]
   \<and> sorted [42, 43, 44 :: int]
   \<and> subseq [ev42, ev44] [ev42, ev43, ev44]
   \<and> (\<exists>ids'. map (\<lambda>e. field e ''id'') [ev42, ev44] = map (\<lambda>n. Some (PInt n)) ids'
              \<and> subseq ids' [42, 43, 44] \<and> sorted ids')"
proof -
  let ?run = "for_events ex_listener ex_func ex_types [ev42, ev43, ev44] (PInt 41) (ex_world [])"
  have handed: "snd (snd (snd ?run)) = [ev42, ev44]" by code_simp
  have run: "?run = (fst ?run, fst (snd ?run), fst (snd (snd ?run)), [ev42, ev44])"
    unfolding handed[symmetric] by simp
  have ids: "map (\<lambda>e. field e ''id'') [ev42, ev43, ev44] = map (\<lambda>n. Some (PInt n)) [42, 43, 44]"
    by code_simp
  have asc: "sorted [42, 43, 44 :: int]" by simp
  from dispatch_order[OF run ids asc] handed ids asc show ?thesis by blast
qed

section \<open>Sending one event\<close>

lemma fix_created_at_Inr:
  assumes "fix_created_at payload = Inr p1"
  shows "\<exists>kvs d. payload = PDict kvs \<and> map_of kvs ''created_at'' = Some (PDateTime d)
           \<and> p1 = PDict (AList.update ''created_at'' (PStr (isoformat d)) kvs)"
proof (cases payload)
  case (PDict kvs)
  show ?thesis
  proof (cases "map_of kvs ''created_at''")
    case None
    with PDict assms show ?thesis by (simp add: fix_created_at_def bind_err_def)
  next
    case (Some c)
    with PDict assms show ?thesis
      by (cases c) (simp_all add: fix_created_at_def bind_err_def)
  qed
qed (use assms in \<open>simp_all add: fix_created_at_def bind_err_def\<close>)

lemma send_payload_cases:
  assumes "send_shotgrid_event_to_ayon L payload w = (r, payload', w')"
  shows "payload' = payload \<or> fix_created_at payload = Inr payload'"
  using assms
  by (auto simp: send_shotgrid_event_to_ayon_def split: sum.splits prod.splits)

lemma send_ok:
  assumes "send_shotgrid_event_to_ayon L payload w = (Inr v, payload', w')"
  shows "fix_created_at payload = Inr payload'"
    and "\<exists>ev description user_name. ayon_events w' = ayon_events w @ [ev]
           \<and> describe_event payload = Inr (description, user_name)
           \<and> ev_description ev = description \<and> ev_username ev = user_name
           \<and> ev_topic ev = ''shotgrid.event''
           \<and> field payload' ''id'' = Some (ev_hash ev) \<and> v = ev_hash ev
           \<and> field (ev_payload ev) ''sg_payload'' = Some payload'"
proof -
  show "fix_created_at payload = Inr payload'"
    using assms by (auto simp: send_shotgrid_event_to_ayon_def split: sum.splits prod.splits)
  show "\<exists>ev description user_name. ayon_events w' = ayon_events w @ [ev]
           \<and> describe_event payload = Inr (description, user_name)
           \<and> ev_description ev = description \<and> ev_username ev = user_name
           \<and> ev_topic ev = ''shotgrid.event''
           \<and> field payload' ''id'' = Some (ev_hash ev) \<and> v = ev_hash ev
           \<and> field (ev_payload ev) ''sg_payload'' = Some payload'"
    using assms
    apply (simp add: send_shotgrid_event_to_ayon_def split: sum.splits prod.splits)
    apply (auto simp: log_msg_def dest!: ayon_dispatch_event_ok sg_find_one_project_fields(1) py_subscript_Inr)
    done
qed

text \<open>
  C10. \<^verbatim>\<open>send_shotgrid_event_to_ayon\<close> changes its argument in place: however the call
  ends, every field of the payload other than \<open>created_at\<close> reads as before; and when
  the call returns, \<open>created_at\<close> held a datetime and now holds its ISO text, and the
  event appended to the AYON history carries the payload in that changed form, so the
  replacement happened before the dispatch.
\<close>

theorem created_at_replaced_in_place:
  assumes "send_shotgrid_event_to_ayon L payload w = (r, payload', w')"
  shows "(\<forall>k. k \<noteq> ''created_at'' \<longrightarrow> field payload' k = field payload k)
       \<and> (\<forall>v. r = Inr v \<longrightarrow>
            (\<exists>d ev. field payload ''created_at'' = Some (PDateTime d)
               \<and> field payload' ''created_at'' = Some (PStr (isoformat d))
               \<and> ayon_events w' = ayon_events w @ [ev]
               \<and> field (ev_payload ev) ''sg_payload'' = Some payload'))"
proof (intro conjI allI impI)
  fix k :: string
  assume k: "k \<noteq> ''created_at''"
  from send_payload_cases[OF assms] show "field payload' k = field payload k"
  proof
    assume "payload' = payload"
    then show ?thesis by simp
  next
    assume "fix_created_at payload = Inr payload'"
    from fix_created_at_Inr[OF this] k show ?thesis by (auto simp: update_conv')
  qed
next
  fix v
  assume r: "r = Inr v"
  with assms have sent: "send_shotgrid_event_to_ayon L payload w = (Inr v, payload', w')" by simp
  from fix_created_at_Inr[OF send_ok(1)[OF sent]] obtain kvs d where
    p: "payload = PDict kvs" "map_of kvs ''created_at'' = Some (PDateTime d)"
       "payload' = PDict (AList.update ''created_at'' (PStr (isoformat d)) kvs)"
    by blast
  from send_ok(2)[OF sent] obtain ev where
    "ayon_events w' = ayon_events w @ [ev]" "field (ev_payload ev) ''sg_payload'' = Some payload'"
    by blast
  with p show "\<exists>d ev. field payload ''created_at'' = Some (PDateTime d)
               \<and> field payload' ''created_at'' = Some (PStr (isoformat d))
               \<and> ayon_events w' = ayon_events w @ [ev]
               \<and> field (ev_payload ev) ''sg_payload'' = Some payload'"
    by (auto simp: update_conv')
qed

theorem created_at_replaced_in_place_witness:
  "fst (send_shotgrid_event_to_ayon ex_listener ev42 (ex_world ex_log)) = Inr (PInt 42)
   \<and> field (fst (snd (send_shotgrid_event_to_ayon ex_listener ev42 (ex_world ex_log)))) ''event_type''
       = field ev42 ''event_type''
   \<and> field (fst (snd (send_shotgrid_event_to_ayon ex_listener ev42 (ex_world ex_log)))) ''user''
       = field ev42 ''user''
   \<and> field ev42 ''created_at'' = Some (PDateTime ex_time)
   \<and> field (fst (snd (send_shotgrid_event_to_ayon ex_listener ev42 (ex_world ex_log)))) ''created_at''
       = Some (PStr ''2024-03-07T09:05:00'')"
proof -
  let ?run = "send_shotgrid_event_to_ayon ex_listener ev42 (ex_world ex_log)"
  have r: "fst ?run = Inr (PInt 42)" by code_simp
  have run: "?run = (fst ?run, fst (snd ?run), snd (snd ?run))" by simp
  have c: "field ev42 ''created_at'' = Some (PDateTime ex_time)" by code_simp
  have iso: "isoformat ex_time = ''2024-03-07T09:05:00''" by code_simp
  from created_at_replaced_in_place[OF run]
  have others: "\<forall>k. k \<noteq> ''created_at'' \<longrightarrow> field (fst (snd ?run)) k = field ev42 k"
    and changed: "\<exists>d ev. field ev42 ''created_at'' = Some (PDateTime d)
               \<and> field (fst (snd ?run)) ''created_at'' = Some (PStr (isoformat d))
               \<and> ayon_events (snd (snd ?run)) = ayon_events (ex_world ex_log) @ [ev]
               \<and> field (ev_payload ev) ''sg_payload'' = Some (fst (snd ?run))"
    using r by blast+
  from others have k1: "field (fst (snd ?run)) ''event_type'' = field ev42 ''event_type''"
    and k2: "field (fst (snd ?run)) ''user'' = field ev42 ''user''"
    by simp_all
  from changed c iso have c': "field (fst (snd ?run)) ''created_at'' = Some (PStr ''2024-03-07T09:05:00'')"
    by auto
  from r k1 k2 c c' show ?thesis by blast
qed

lemma describe_event_Inr:
  assumes "describe_event payload = Inr (description, user_name)"
  shows "\<exists>event_type. field payload ''event_type'' = Some event_type
          \<and> user_name = (case field payload ''user'' of
                            None \<Rightarrow> PStr ''Undefined''
                          | Some user \<Rightarrow> (case field user ''name'' of
                                            None \<Rightarrow> PStr ''Undefined'' | Some n \<Rightarrow> n))
          \<and> description = (if py_truthy user_name
                            then ''Leeched '' @ py_format event_type @ '' by '' @ py_format user_name
                            else ''Leeched '' @ py_format event_type)"
proof (cases payload)
  case (PDict kvs)
  show ?thesis
  proof (cases "map_of kvs ''event_type''")
    case None
    with PDict assms show ?thesis by (simp add: describe_event_def bind_err_def)
  next
    case et: (Some event_type)
    show ?thesis
    proof (cases "map_of kvs ''user''")
      case None
      with PDict et assms show ?thesis by (auto simp: describe_event_def bind_err_def)
    next
      case (Some user)
      with PDict et assms show ?thesis
        by (cases user) (auto simp: describe_event_def bind_err_def split: option.splits)
    qed
  qed
qed (use assms in \<open>simp_all add: describe_event_def bind_err_def\<close>)

text \<open>What a dispatched event is called: \<open>Leeched <event_type> by <user_name>\<close>, where the
  user name is the name of the payload's user, or the text \<open>Undefined\<close> when the payload
  has no user key or the user has no name; the plain \<open>Leeched <event_type>\<close> only for a
  name that is there but empty.\<close>

lemma description_of_dispatched_event:
  assumes "send_shotgrid_event_to_ayon L payload w = (Inr v, payload', w')"
  shows "\<exists>ev event_type user_name.
           ayon_events w' = ayon_events w @ [ev]
         \<and> field payload ''event_type'' = Some event_type
         \<and> user_name = (case field payload ''user'' of
                            None \<Rightarrow> PStr ''Undefined''
                          | Some user \<Rightarrow> (case field user ''name'' of
                                            None \<Rightarrow> PStr ''Undefined'' | Some n \<Rightarrow> n))
         \<and> ev_description ev =
              (if py_truthy user_name
               then ''Leeched '' @ py_format event_type @ '' by '' @ py_format user_name
               else ''Leeched '' @ py_format event_type)"
proof -
  from send_ok(2)[OF assms] obtain ev description user_name where
    ev: "ayon_events w' = ayon_events w @ [ev]" "ev_description ev = description"
    and d: "describe_event payload = Inr (description, user_name)"
    by blast
  from describe_event_Inr[OF d] ev show ?thesis by blast
qed

text \<open>A user that is None is no dictionary: line 306 raises before anything is sent.\<close>

lemma send_user_none_raises:
  assumes "field payload ''event_type'' = Some event_type" and "field payload ''user'' = Some PNone"
  shows "send_shotgrid_event_to_ayon L payload w = (Inl AttributeError, payload, w)"
proof (cases payload)
  case (PDict kvs)
  with assms show ?thesis
    by (simp add: send_shotgrid_event_to_ayon_def describe_event_def bind_err_def)
qed (use assms in simp_all)

text \<open>
  C8. The code does not do what the claim says. The log entry 48 has no user, and since
  the user is a requested field the fetched event carries \<open>user\<close> with the value None.
  \<^verbatim>\<open>payload.get("user", {})\<close> then returns None, not the default, and
  \<^verbatim>\<open>.get("name", "Undefined")\<close> on it raises AttributeError: no description is built
  and nothing is dispatched. The loop catches the exception and logs it, and the AYON
  history stays empty.
\<close>

theorem event_without_user_is_not_dispatched:
  "fst (sg_find_events (ex_filters @ [IdGreaterThan (PInt 41)]) (SG_EVENT_QUERY_FIELDS ex_listener)
          (world ex_state_no_user)) = Inr [ev48]
   \<and> field ev48 ''user'' = Some PNone
   \<and> fst (send_shotgrid_event_to_ayon ex_listener ev48 (world ex_state_no_user)) = Inl AttributeError
   \<and> ayon_events (snd (snd (send_shotgrid_event_to_ayon ex_listener ev48 (world ex_state_no_user)))) = []
   \<and> fst (loop_iteration ex_listener (default_func ex_listener) ex_types ex_state_no_user) = Inr ()
   \<and> logged (world (fst (snd (loop_iteration ex_listener (default_func ex_listener) ex_types
                                 ex_state_no_user))))
       = [LogInfoFound 1, LogErrorTraceback AttributeError, LogDebugWaiting 2 10]
   \<and> ayon_events (world (fst (snd (loop_iteration ex_listener (default_func ex_listener) ex_types
                                      ex_state_no_user)))) = []"
  by code_simp

section \<open>Resolving the cursor\<close>

text \<open>
  C9. \<^verbatim>\<open>_get_last_event_processed\<close> is partial. When the AYON history yields no record
  for the topic it asks for and \<^verbatim>\<open>find_one\<close> returns None, subscripting None raises
  TypeError; so whenever the function returns a value, one of the two queries produced a
  record.
\<close>

theorem get_last_event_processed_partial:
  "(ayon_get_events [''shotgrid.leech''] w = (Inr [], w1)
      \<and> sg_find_one_event sg_filters [''id'', ''project''] w1 = (Inr PNone, w2)
      \<longrightarrow> get_last_event_processed L sg_filters w = (Inl TypeError, w2))
   \<and> (fst (get_last_event_processed L sg_filters w) = Inr v
      \<longrightarrow> (\<exists>records. fst (ayon_get_events [''shotgrid.leech''] w) = Inr records
            \<and> (records \<noteq> []
                \<or> (\<exists>last_event. fst (sg_find_one_event sg_filters [''id'', ''project'']
                                       (snd (ayon_get_events [''shotgrid.leech''] w))) = Inr last_event
                               \<and> last_event \<noteq> PNone))))"
proof (intro conjI impI)
  assume "ayon_get_events [''shotgrid.leech''] w = (Inr [], w1)
      \<and> sg_find_one_event sg_filters [''id'', ''project''] w1 = (Inr PNone, w2)"
  then show "get_last_event_processed L sg_filters w = (Inl TypeError, w2)"
    by (simp add: get_last_event_processed_def)
next
  assume ok: "fst (get_last_event_processed L sg_filters w) = Inr v"
  obtain r w1 where g: "ayon_get_events [''shotgrid.leech''] w = (r, w1)"
    by (cases "ayon_get_events [''shotgrid.leech''] w")
  show "\<exists>records. fst (ayon_get_events [''shotgrid.leech''] w) = Inr records
            \<and> (records \<noteq> []
                \<or> (\<exists>last_event. fst (sg_find_one_event sg_filters [''id'', ''project'']
                                       (snd (ayon_get_events [''shotgrid.leech''] w))) = Inr last_event
                               \<and> last_event \<noteq> PNone))"
  proof (cases r)
    case (Inl e)
    with g ok show ?thesis by (simp add: get_last_event_processed_def)
  next
    case (Inr records)
    show ?thesis
    proof (cases "records = []")
      case False
      with g Inr show ?thesis by simp
    next
      case True
      obtain r2 w2 where f: "sg_find_one_event sg_filters [''id'', ''project''] w1 = (r2, w2)"
        by (cases "sg_find_one_event sg_filters [''id'', ''project''] w1")
      with g Inr True ok show ?thesis
        by (cases r2) (auto simp: get_last_event_processed_def)
    qed
  qed
qed

theorem get_last_event_processed_partial_witness:
  "fst (ayon_get_events [''shotgrid.leech''] (ex_world [])) = Inr []
   \<and> fst (sg_find_one_event ex_filters [''id'', ''project'']
           (snd (ayon_get_events [''shotgrid.leech''] (ex_world [])))) = Inr PNone
   \<and> fst (get_last_event_processed ex_listener ex_filters (ex_world [])) = Inl TypeError
   \<and> fst (get_last_event_processed ex_listener ex_filters (ex_world ex_log)) = Inr (PInt 44)
   \<and> fst (ayon_get_events [''shotgrid.leech''] (ex_world ex_log)) = Inr []
   \<and> (\<exists>last_event. fst (sg_find_one_event ex_filters [''id'', ''project'']
                           (snd (ayon_get_events [''shotgrid.leech''] (ex_world ex_log))))
                       = Inr last_event
                   \<and> last_event \<noteq> PNone)"
proof -
  let ?g = "ayon_get_events [''shotgrid.leech''] (ex_world [])"
  let ?f = "sg_find_one_event ex_filters [''id'', ''project''] (snd ?g)"
  have g: "fst ?g = Inr []" by code_simp
  have f: "fst ?f = Inr PNone" by code_simp
  have g': "?g = (Inr [], snd ?g)" unfolding g[symmetric] by simp
  have f': "?f = (Inr PNone, snd ?f)" unfolding f[symmetric] by simp
  from get_last_event_processed_partial[of "ex_world []" "snd ?g" ex_filters "snd ?f" ex_listener]
    g' f'
  have raised: "fst (get_last_event_processed ex_listener ex_filters (ex_world [])) = Inl TypeError"
    by simp
  have ok: "fst (get_last_event_processed ex_listener ex_filters (ex_world ex_log)) = Inr (PInt 44)"
    by code_simp
  have none: "fst (ayon_get_events [''shotgrid.leech''] (ex_world ex_log)) = Inr []" by code_simp
  from get_last_event_processed_partial[of "ex_world ex_log" _ ex_filters _ ex_listener "PInt 44"] ok
  have "\<exists>records. fst (ayon_get_events [''shotgrid.leech''] (ex_world ex_log)) = Inr records
         \<and> (records \<noteq> []
             \<or> (\<exists>last_event. fst (sg_find_one_event ex_filters [''id'', ''project'']
                                    (snd (ayon_get_events [''shotgrid.leech''] (ex_world ex_log))))
                                = Inr last_event
                            \<and> last_event \<noteq> PNone))"
    by blast
  with none have "\<exists>last_event. fst (sg_find_one_event ex_filters [''id'', ''project'']
                           (snd (ayon_get_events [''shotgrid.leech''] (ex_world ex_log))))
                       = Inr last_event
                   \<and> last_event \<noteq> PNone"
    by auto
  with g f raised ok none show ?thesis by blast
qed

section \<open>The loop without filters\<close>

lemma log_msg_fields:
  "trace (log_msg m w) = trace w" "ayon_events (log_msg m w) = ayon_events w"
  "logged (log_msg m w) = logged w @ [m]" "faults (log_msg m w) = faults w"
  by (simp_all add: log_msg_def)

lemma py_sleep_ok:
  "0 \<le> secs \<Longrightarrow> py_sleep secs w = (Inr (), w\<lparr>trace := trace w @ [Sleep secs]\<rparr>)"
  by (simp add: py_sleep_def)

lemma build_shotgrid_filters_trace:
  assumes "build_shotgrid_filters L w = (r, w1)"
  shows "trace w1 = trace w @ [SgFindProjects]"
  using assms
  by (auto simp: build_shotgrid_filters_def sg_find_projects_def Let_def
      split: prod.splits option.splits sum.splits if_splits dest: external_call_fields(1))

lemma loop_iteration_empty_filters:
  assumes freq: "0 \<le> shotgrid_polling_frequency L"
    and empty: "base_sg_filters s = []"
    and it: "loop_iteration L f types s = (r, s1, handed)"
  shows "trace (world s1) = trace (world s) @ [Sleep (shotgrid_polling_frequency L), SgFindProjects]"
    and "handed = []" and "last_event_id s1 = last_event_id s"
proof -
  let ?w0 = "(log_msg (LogDebugWaiting 0 (shotgrid_polling_frequency L)) (world s))
               \<lparr>trace := trace (world s) @ [Sleep (shotgrid_polling_frequency L)]\<rparr>"
  obtain rb wb where b: "build_shotgrid_filters L ?w0 = (rb, wb)"
    by (cases "build_shotgrid_filters L ?w0")
  from build_shotgrid_filters_trace[OF b]
  have tr: "trace wb = trace (world s) @ [Sleep (shotgrid_polling_frequency L), SgFindProjects]"
    by simp
  from it empty freq b
  have "world s1 = wb \<and> handed = [] \<and> last_event_id s1 = last_event_id s"
    by (cases rb) (auto simp: loop_iteration_def py_sleep_ok log_msg_fields)
  with tr show "trace (world s1) = trace (world s) @ [Sleep (shotgrid_polling_frequency L), SgFindProjects]"
    and "handed = []" and "last_event_id s1 = last_event_id s" by simp_all
qed

lemma loop_iteration_keeps_filters:
  assumes "base_sg_filters s \<noteq> []" and "loop_iteration L f types s = (r, s1, handed)"
  shows "base_sg_filters s1 = base_sg_filters s"
  using assms by (auto simp: loop_iteration_def split: prod.splits sum.splits if_splits)

lemma listen_loop_keeps_filters:
  "base_sg_filters s \<noteq> [] \<Longrightarrow> listen_loop L f types n s = Inr s' \<Longrightarrow>
     base_sg_filters s' = base_sg_filters s"
proof (induction n arbitrary: s)
  case 0
  then show ?case by simp
next
  case (Suc n)
  obtain r s1 h where it: "loop_iteration L f types s = (r, s1, h)"
    by (cases "loop_iteration L f types s")
  with Suc.prems obtain u where r: "r = Inr u" and rest: "listen_loop L f types n s1 = Inr s'"
    by (cases r) auto
  from loop_iteration_keeps_filters[OF Suc.prems(1) it] have eq: "base_sg_filters s1 = base_sg_filters s" .
  with Suc.prems(1) have "base_sg_filters s1 \<noteq> []" by simp
  from Suc.IH[OF this rest] eq show ?case by simp
qed

lemma listen_loop_empty_filters:
  assumes freq: "0 \<le> shotgrid_polling_frequency L"
  shows "base_sg_filters s = [] \<Longrightarrow> listen_loop L f types n s = Inr s' \<Longrightarrow> base_sg_filters s' = [] \<Longrightarrow>
     trace (world s') = trace (world s)
        @ concat (replicate n [Sleep (shotgrid_polling_frequency L), SgFindProjects])"
proof (induction n arbitrary: s)
  case 0
  then show ?case by simp
next
  case (Suc n)
  obtain r s1 h where it: "loop_iteration L f types s = (r, s1, h)"
    by (cases "loop_iteration L f types s")
  with Suc.prems obtain u where r: "r = Inr u" and rest: "listen_loop L f types n s1 = Inr s'"
    by (cases r) auto
  have e1: "base_sg_filters s1 = []"
  proof (rule ccontr)
    assume ne: "base_sg_filters s1 \<noteq> []"
    from listen_loop_keeps_filters[OF ne rest] Suc.prems(3) ne show False by simp
  qed
  from loop_iteration_empty_filters(1)[OF freq Suc.prems(1) it]
  have "trace (world s1) = trace (world s) @ [Sleep (shotgrid_polling_frequency L), SgFindProjects]" .
  with Suc.IH[OF e1 rest Suc.prems(3)] show ?case by simp
qed

lemma sg_find_one_event_trace:
  assumes "sg_find_one_event filters fs w = (r, w1)"
  shows "trace w1 = trace w @ [SgFindOneEvent filters]"
  using assms
  by (auto simp: sg_find_one_event_def split: prod.splits option.splits if_splits list.splits
      dest: external_call_fields(1))

lemma loop_iteration_rebuild:
  assumes freq: "0 \<le> shotgrid_polling_frequency L"
    and empty: "base_sg_filters s = []"
    and it: "loop_iteration L f types s = (r, s1, handed)"
  shows "(\<exists>filters. build_shotgrid_filters L
                       (snd (py_sleep (shotgrid_polling_frequency L)
                              (log_msg (LogDebugWaiting 0 (shotgrid_polling_frequency L)) (world s))))
                     = (Inr filters, world s1)
                   \<and> r = Inr () \<and> base_sg_filters s1 = filters)
       \<or> (\<exists>e. build_shotgrid_filters L
                  (snd (py_sleep (shotgrid_polling_frequency L)
                         (log_msg (LogDebugWaiting 0 (shotgrid_polling_frequency L)) (world s))))
                = (Inl e, world s1)
              \<and> r = Inl e \<and> base_sg_filters s1 = [])"
  using it empty freq
  by (auto simp: loop_iteration_def py_sleep_def split: prod.splits sum.splits)

lemma start_listening_empty_filters:
  assumes b: "build_shotgrid_filters L (log_msg LogInfoStart w) = (Inr [], w1)"
    and g: "ayon_get_events [''shotgrid.leech''] w1 = (Inr [], w2)"
  shows "\<exists>r w3. sg_find_one_event [] [''id'', ''project''] w2 = (r, w3)
           \<and> trace w3 = trace w2 @ [SgFindOneEvent []]
           \<and> start_listening L f n w =
               (case bind_err r (\<lambda>last_event. py_subscript last_event ''id'') of
                  Inl e \<Rightarrow> Inl (e, w3)
                | Inr cursor \<Rightarrow>
                    (case listen_loop L f (get_supported_event_types L) n
                            \<lparr>base_sg_filters = [], last_event_id = cursor, world = w3\<rparr> of
                       Inl (e, s) \<Rightarrow> Inl (e, world s)
                     | Inr s \<Rightarrow> Inr s))"
proof -
  obtain r w3 where f: "sg_find_one_event [] [''id'', ''project''] w2 = (r, w3)"
    by (cases "sg_find_one_event [] [''id'', ''project''] w2")
  have "start_listening L f n w =
               (case bind_err r (\<lambda>last_event. py_subscript last_event ''id'') of
                  Inl e \<Rightarrow> Inl (e, w3)
                | Inr cursor \<Rightarrow>
                    (case listen_loop L f (get_supported_event_types L) n
                            \<lparr>base_sg_filters = [], last_event_id = cursor, world = w3\<rparr> of
                       Inl (e, s) \<Rightarrow> Inl (e, world s)
                     | Inr s \<Rightarrow> Inr s))"
    using b g f
    by (cases r) (simp_all add: start_listening_def get_last_event_processed_def bind_err_def
        split: sum.splits)
  with f sg_find_one_event_trace[OF f] show ?thesis by blast
qed

text \<open>
  C7, as amended. Inside the \<^verbatim>\<open>while\<close> loop, a pass that starts with an empty filter set
  issues no query on the event log: it only sleeps for the poll interval and asks ShotGrid
  for the synced projects again, hands no event to \<^verbatim>\<open>self.func\<close>, leaves the cursor
  alone, and adopts the rebuilt filter set (or ends with the exception of the rebuild).
  As long as the filter set is still empty after \<open>n\<close> passes, those \<open>n\<close> sleeps and \<open>n\<close>
  project queries are all that the loop has done. Before the loop, the cursor resolution
  of the start-up runs whatever the filter set is: with an empty filter set and no record
  in the AYON history it issues an unfiltered \<^verbatim>\<open>find_one\<close> on the event log, and
  \<^verbatim>\<open>start_listening\<close> enters the loop with its answer or ends with its exception.
  The poll interval is taken to be non-negative.
\<close>

theorem empty_filters_only_sleep_and_rebuild:
  assumes freq: "0 \<le> shotgrid_polling_frequency L" and empty: "base_sg_filters s = []"
  shows "(\<forall>r s1 handed. loop_iteration L f types s = (r, s1, handed) \<longrightarrow>
            trace (world s1) = trace (world s) @ [Sleep (shotgrid_polling_frequency L), SgFindProjects]
          \<and> handed = [] \<and> last_event_id s1 = last_event_id s
          \<and> ((\<exists>filters. build_shotgrid_filters L
                            (snd (py_sleep (shotgrid_polling_frequency L)
                                   (log_msg (LogDebugWaiting 0 (shotgrid_polling_frequency L)) (world s))))
                          = (Inr filters, world s1)
                        \<and> r = Inr () \<and> base_sg_filters s1 = filters)
             \<or> (\<exists>e. build_shotgrid_filters L
                        (snd (py_sleep (shotgrid_polling_frequency L)
                               (log_msg (LogDebugWaiting 0 (shotgrid_polling_frequency L)) (world s))))
                      = (Inl e, world s1)
                    \<and> r = Inl e \<and> base_sg_filters s1 = [])))
       \<and> (\<forall>n s'. listen_loop L f types n s = Inr s' \<and> base_sg_filters s' = [] \<longrightarrow>
            trace (world s') = trace (world s)
              @ concat (replicate n [Sleep (shotgrid_polling_frequency L), SgFindProjects]))
       \<and> (\<forall>w w1 w2 n.
            build_shotgrid_filters L (log_msg LogInfoStart w) = (Inr [], w1)
            \<and> ayon_get_events [''shotgrid.leech''] w1 = (Inr [], w2)
            \<longrightarrow> (\<exists>r w3. sg_find_one_event [] [''id'', ''project''] w2 = (r, w3)
                   \<and> trace w3 = trace w2 @ [SgFindOneEvent []]
                   \<and> start_listening L f n w =
                       (case bind_err r (\<lambda>last_event. py_subscript last_event ''id'') of
                          Inl e \<Rightarrow> Inl (e, w3)
                        | Inr cursor \<Rightarrow>
                            (case listen_loop L f (get_supported_event_types L) n
                                    \<lparr>base_sg_filters = [], last_event_id = cursor, world = w3\<rparr> of
                               Inl (e, s) \<Rightarrow> Inl (e, world s)
                             | Inr s \<Rightarrow> Inr s))))"
proof -
  have c1: "\<forall>r s1 handed. loop_iteration L f types s = (r, s1, handed) \<longrightarrow>
            trace (world s1) = trace (world s) @ [Sleep (shotgrid_polling_frequency L), SgFindProjects]
          \<and> handed = [] \<and> last_event_id s1 = last_event_id s
          \<and> ((\<exists>filters. build_shotgrid_filters L
                            (snd (py_sleep (shotgrid_polling_frequency L)
                                   (log_msg (LogDebugWaiting 0 (shotgrid_polling_frequency L)) (world s))))
                          = (Inr filters, world s1)
                        \<and> r = Inr () \<and> base_sg_filters s1 = filters)
             \<or> (\<exists>e. build_shotgrid_filters L
                        (snd (py_sleep (shotgrid_polling_frequency L)
                               (log_msg (LogDebugWaiting 0 (shotgrid_polling_frequency L)) (world s))))
                      = (Inl e, world s1)
                    \<and> r = Inl e \<and> base_sg_filters s1 = []))"
  proof (intro allI impI)
    fix r s1 handed
    assume it: "loop_iteration L f types s = (r, s1, handed)"
    from loop_iteration_empty_filters[OF freq empty it] loop_iteration_rebuild[OF freq empty it]
    show "trace (world s1) = trace (world s) @ [Sleep (shotgrid_polling_frequency L), SgFindProjects]
          \<and> handed = [] \<and> last_event_id s1 = last_event_id s
          \<and> ((\<exists>filters. build_shotgrid_filters L
                            (snd (py_sleep (shotgrid_polling_frequency L)
                                   (log_msg (LogDebugWaiting 0 (shotgrid_polling_frequency L)) (world s))))
                          = (Inr filters, world s1)
                        \<and> r = Inr () \<and> base_sg_filters s1 = filters)
             \<or> (\<exists>e. build_shotgrid_filters L
                        (snd (py_sleep (shotgrid_polling_frequency L)
                               (log_msg (LogDebugWaiting 0 (shotgrid_polling_frequency L)) (world s))))
                      = (Inl e, world s1)
                    \<and> r = Inl e \<and> base_sg_filters s1 = []))"
      by (intro conjI)
  qed
  have c2: "\<forall>n s'. listen_loop L f types n s = Inr s' \<and> base_sg_filters s' = [] \<longrightarrow>
            trace (world s') = trace (world s)
              @ concat (replicate n [Sleep (shotgrid_polling_frequency L), SgFindProjects])"
    using listen_loop_empty_filters[OF freq empty] by blast
  have c3: "\<forall>w w1 w2 n.
            build_shotgrid_filters L (log_msg LogInfoStart w) = (Inr [], w1)
            \<and> ayon_get_events [''shotgrid.leech''] w1 = (Inr [], w2)
            \<longrightarrow> (\<exists>r w3. sg_find_one_event [] [''id'', ''project''] w2 = (r, w3)
                   \<and> trace w3 = trace w2 @ [SgFindOneEvent []]
                   \<and> start_listening L f n w =
                       (case bind_err r (\<lambda>last_event. py_subscript last_event ''id'') of
                          Inl e \<Rightarrow> Inl (e, w3)
                        | Inr cursor \<Rightarrow>
                            (case listen_loop L f (get_supported_event_types L) n
                                    \<lparr>base_sg_filters = [], last_event_id = cursor, world = w3\<rparr> of
                               Inl (e, s) \<Rightarrow> Inl (e, world s)
                             | Inr s \<Rightarrow> Inr s)))"
  proof (intro allI impI)
    fix w w1 w2 n
    assume a: "build_shotgrid_filters L (log_msg LogInfoStart w) = (Inr [], w1)
            \<and> ayon_get_events [''shotgrid.leech''] w1 = (Inr [], w2)"
    then have b: "build_shotgrid_filters L (log_msg LogInfoStart w) = (Inr [], w1)"
      and g: "ayon_get_events [''shotgrid.leech''] w1 = (Inr [], w2)" by simp_all
    show "\<exists>r w3. sg_find_one_event [] [''id'', ''project''] w2 = (r, w3)
                   \<and> trace w3 = trace w2 @ [SgFindOneEvent []]
                   \<and> start_listening L f n w =
                       (case bind_err r (\<lambda>last_event. py_subscript last_event ''id'') of
                          Inl e \<Rightarrow> Inl (e, w3)
                        | Inr cursor \<Rightarrow>
                            (case listen_loop L f (get_supported_event_types L) n
                                    \<lparr>base_sg_filters = [], last_event_id = cursor, world = w3\<rparr> of
                               Inl (e, s) \<Rightarrow> Inl (e, world s)
                             | Inr s \<Rightarrow> Inr s))"
      by (rule start_listening_empty_filters[OF b g])
  qed
  from c1 c2 c3 show ?thesis by (intro conjI)
qed

theorem empty_filters_only_sleep_and_rebuild_witness:
  "0 \<le> shotgrid_polling_frequency ex_listener \<and> base_sg_filters ex_idle_state = []
   \<and> base_sg_filters (projr (listen_loop ex_listener (default_func ex_listener) ex_types 2 ex_idle_state)) = []
   \<and> trace (world (projr (listen_loop ex_listener (default_func ex_listener) ex_types 2 ex_idle_state)))
       = [Sleep 10, SgFindProjects, Sleep 10, SgFindProjects]
   \<and> base_sg_filters ex_state_unfiltered = []
   \<and> fst (loop_iteration ex_listener (default_func ex_listener) ex_types ex_state_unfiltered) = Inr ()
   \<and> base_sg_filters (fst (snd (loop_iteration ex_listener (default_func ex_listener) ex_types
                                    ex_state_unfiltered))) = ex_filters
   \<and> trace (world (fst (snd (loop_iteration ex_listener (default_func ex_listener) ex_types
                                ex_state_unfiltered)))) = [Sleep 10, SgFindProjects]
   \<and> fst (build_shotgrid_filters ex_listener (log_msg LogInfoStart ex_idle_world)) = Inr []
   \<and> fst (ayon_get_events [''shotgrid.leech'']
            (snd (build_shotgrid_filters ex_listener (log_msg LogInfoStart ex_idle_world)))) = Inr []
   \<and> trace (snd (sg_find_one_event [] [''id'', ''project'']
                   (snd (ayon_get_events [''shotgrid.leech'']
                          (snd (build_shotgrid_filters ex_listener (log_msg LogInfoStart ex_idle_world)))))))
       = [SgFindProjects, AyonGetEvents [''shotgrid.leech''], SgFindOneEvent []]"
proof -
  let ?f = "default_func ex_listener"
  let ?s' = "ex_idle_state\<lparr>world := ex_idle_world\<lparr>trace := [Sleep 10, SgFindProjects, Sleep 10, SgFindProjects],
                 logged := [LogDebugWaiting 0 10, LogDebugWaiting 0 10]\<rparr>\<rparr>"
  let ?it = "loop_iteration ex_listener ?f ex_types ex_state_unfiltered"
  let ?b = "build_shotgrid_filters ex_listener (log_msg LogInfoStart ex_idle_world)"
  let ?g = "ayon_get_events [''shotgrid.leech''] (snd ?b)"
  let ?o = "sg_find_one_event [] [''id'', ''project''] (snd ?g)"
  have freq: "0 \<le> shotgrid_polling_frequency ex_listener" by code_simp
  have f10: "shotgrid_polling_frequency ex_listener = 10" by code_simp
  have empty: "base_sg_filters ex_idle_state = []" by code_simp
  have empty2: "base_sg_filters ex_state_unfiltered = []" by code_simp
  note idle = empty_filters_only_sleep_and_rebuild[OF freq empty, of ?f ex_types]
  note unf = empty_filters_only_sleep_and_rebuild[OF freq empty2, of ?f ex_types]
  \<comment> \<open>two passes with the filters still empty\<close>
  have run: "listen_loop ex_listener ?f ex_types 2 ex_idle_state = Inr ?s'" by code_simp
  have still: "base_sg_filters ?s' = []" by code_simp
  have t0: "trace (world ex_idle_state) = []" by code_simp
  from idle have "\<forall>n s'. listen_loop ex_listener ?f ex_types n ex_idle_state = Inr s'
            \<and> base_sg_filters s' = [] \<longrightarrow>
            trace (world s') = trace (world ex_idle_state)
              @ concat (replicate n [Sleep (shotgrid_polling_frequency ex_listener), SgFindProjects])"
    by blast
  from this[rule_format, of 2 ?s'] run still
  have "trace (world ?s') = trace (world ex_idle_state)
          @ concat (replicate 2 [Sleep (shotgrid_polling_frequency ex_listener), SgFindProjects])"
    by blast
  then have tr2: "trace (world ?s') = [Sleep 10, SgFindProjects, Sleep 10, SgFindProjects]"
    by (simp add: t0 f10 numeral_2_eq_2)
  \<comment> \<open>a pass that obtains a filter set adopts it\<close>
  have it: "?it = (fst ?it, fst (snd ?it), snd (snd ?it))" by simp
  have built: "fst (build_shotgrid_filters ex_listener
                 (snd (py_sleep (shotgrid_polling_frequency ex_listener)
                        (log_msg (LogDebugWaiting 0 (shotgrid_polling_frequency ex_listener))
                           (world ex_state_unfiltered))))) = Inr ex_filters"
    by code_simp
  have t1: "trace (world ex_state_unfiltered) = []" by code_simp
  from unf have "\<forall>r s1 handed. ?it = (r, s1, handed) \<longrightarrow>
            trace (world s1) = trace (world ex_state_unfiltered)
                                 @ [Sleep (shotgrid_polling_frequency ex_listener), SgFindProjects]
          \<and> ((\<exists>filters. build_shotgrid_filters ex_listener
                            (snd (py_sleep (shotgrid_polling_frequency ex_listener)
                                   (log_msg (LogDebugWaiting 0 (shotgrid_polling_frequency ex_listener))
                                      (world ex_state_unfiltered))))
                          = (Inr filters, world s1)
                        \<and> r = Inr () \<and> base_sg_filters s1 = filters)
             \<or> (\<exists>e. build_shotgrid_filters ex_listener
                        (snd (py_sleep (shotgrid_polling_frequency ex_listener)
                               (log_msg (LogDebugWaiting 0 (shotgrid_polling_frequency ex_listener))
                                  (world ex_state_unfiltered))))
                      = (Inl e, world s1)
                    \<and> r = Inl e \<and> base_sg_filters s1 = []))"
    by blast
  from this[rule_format, OF it] built
  have adopted: "fst ?it = Inr () \<and> base_sg_filters (fst (snd ?it)) = ex_filters"
    and tr1: "trace (world (fst (snd ?it))) = [Sleep 10, SgFindProjects]"
    by (auto simp: t1 f10)
  \<comment> \<open>start-up with an empty filter set\<close>
  have b: "fst ?b = Inr []" by code_simp
  have g: "fst ?g = Inr []" by code_simp
  have b': "?b = (Inr [], snd ?b)" unfolding b[symmetric] by simp
  have g': "?g = (Inr [], snd ?g)" unfolding g[symmetric] by simp
  have tg: "trace (snd ?g) = [SgFindProjects, AyonGetEvents [''shotgrid.leech'']]" by code_simp
  from idle have "\<forall>w w1 w2 n.
            build_shotgrid_filters ex_listener (log_msg LogInfoStart w) = (Inr [], w1)
            \<and> ayon_get_events [''shotgrid.leech''] w1 = (Inr [], w2)
            \<longrightarrow> (\<exists>r w3. sg_find_one_event [] [''id'', ''project''] w2 = (r, w3)
                   \<and> trace w3 = trace w2 @ [SgFindOneEvent []])"
    by blast
  from this[rule_format, of ex_idle_world "snd ?b" "snd ?g"] b' g'
  have "\<exists>r w3. ?o = (r, w3) \<and> trace w3 = trace (snd ?g) @ [SgFindOneEvent []]"
    by blast
  then have start: "trace (snd ?o) = [SgFindProjects, AyonGetEvents [''shotgrid.leech''], SgFindOneEvent []]"
    by (auto simp: tg)
  from freq empty run still tr2 empty2 adopted tr1 b g start show ?thesis by simp
qed

text \<open>The claim as it was stated fails at the start-up: no project is synced, the filter
  set is empty and stays empty, and yet \<^verbatim>\<open>start_listening\<close> queries the event log
  (without any filter) before it enters the loop.\<close>

theorem startup_queries_event_log_counterexample:
  "fst (build_shotgrid_filters ex_listener (log_msg LogInfoStart ex_idle_world)) = Inr []
   \<and> base_sg_filters (projr (start_listening ex_listener (default_func ex_listener) 1 ex_idle_world)) = []
   \<and> trace (world (projr (start_listening ex_listener (default_func ex_listener) 1 ex_idle_world)))
       = [SgFindProjects, AyonGetEvents [''shotgrid.leech''], SgFindOneEvent [], Sleep 10,
          SgFindProjects]"
  by code_simp

section \<open>Exceptions in the loop body\<close>

lemma try_block_raised_not_continued:
  "try_block L f types sg_filters cursor w = (Some e, b, c, w1, h) \<Longrightarrow> \<not> b"
  by (auto simp: try_block_def split: prod.splits sum.splits if_splits)

lemma poll_never_raises:
  assumes "0 \<le> shotgrid_polling_frequency L"
  shows "fst (poll L f types base cursor w) = Inr ()"
  using assms by (auto simp: poll_def py_sleep_def Let_def split: prod.splits)

lemma poll_after_exception:
  assumes freq: "0 \<le> shotgrid_polling_frequency L"
    and tb: "try_block L f types (base @ [IdGreaterThan cursor]) cursor w = (Some e, b, c, w1, h)"
    and p: "poll L f types base cursor w = (r, c', w', h')"
  shows "r = Inr () \<and> c' = c \<and> h' = h
       \<and> logged w' = logged w1 @ [LogErrorTraceback e, LogDebugWaiting 2 (shotgrid_polling_frequency L)]
       \<and> trace w' = trace w1 @ [Sleep (shotgrid_polling_frequency L)]"
proof -
  from try_block_raised_not_continued[OF tb] have "\<not> b" .
  with freq tb p show ?thesis
    by (auto simp: poll_def py_sleep_def log_msg_def Let_def)
qed

text \<open>
  C2, as amended. The \<^verbatim>\<open>try\<close> block of the loop body holds the event query, the
  classification and the dispatch. An exception raised there is caught: it is logged, the
  rest of the batch is abandoned, the cursor stays as the batch left it, and the iteration
  ends normally after the sleep. So a pass through the loop body that starts with filters
  and a known cursor never lets an exception out. The only exceptions that leave the loop
  body, and with it \<^verbatim>\<open>start_listening\<close>, are those of the two calls made outside the
  \<^verbatim>\<open>try\<close> block: the filter rebuild (when the filter set is empty) and the cursor
  resolution (when the cursor is unknown). The poll interval is taken to be non-negative.
\<close>

theorem exceptions_in_try_block_are_isolated:
  assumes freq: "0 \<le> shotgrid_polling_frequency L"
    and it: "loop_iteration L f types s = (r, s1, handed)"
  shows "(base_sg_filters s \<noteq> [] \<and> py_truthy (last_event_id s) \<longrightarrow> r = Inr ())
       \<and> (\<forall>e b c w1 h. base_sg_filters s \<noteq> [] \<and> py_truthy (last_event_id s)
             \<and> try_block L f types (base_sg_filters s @ [IdGreaterThan (last_event_id s)])
                   (last_event_id s) (world s) = (Some e, b, c, w1, h)
            \<longrightarrow> r = Inr () \<and> last_event_id s1 = c \<and> handed = h
              \<and> logged (world s1)
                  = logged w1 @ [LogErrorTraceback e, LogDebugWaiting 2 (shotgrid_polling_frequency L)]
              \<and> trace (world s1) = trace w1 @ [Sleep (shotgrid_polling_frequency L)])
       \<and> (\<forall>e. r = Inl e \<longrightarrow>
            (base_sg_filters s = []
               \<and> fst (build_shotgrid_filters L
                        (snd (py_sleep (shotgrid_polling_frequency L)
                               (log_msg (LogDebugWaiting 0 (shotgrid_polling_frequency L)) (world s)))))
                   = Inl e)
          \<or> (base_sg_filters s \<noteq> [] \<and> \<not> py_truthy (last_event_id s)
               \<and> fst (get_last_event_processed L (base_sg_filters s) (world s)) = Inl e))"
proof -
  have polled: "r' = Inr ()" if "poll L f types base cur w = (r', c', w', h')"
    for base cur w r' c' w' h'
    using poll_never_raises[OF freq, of f types base cur w] that by simp
  have inside: "r = Inr ()" if a: "base_sg_filters s \<noteq> []" "py_truthy (last_event_id s)"
  proof -
    obtain r' c' w' h' where
      p: "poll L f types (base_sg_filters s) (last_event_id s) (world s) = (r', c', w', h')"
      by (cases "poll L f types (base_sg_filters s) (last_event_id s) (world s)")
    with a it polled[OF p] show ?thesis by (simp add: loop_iteration_def)
  qed
  have caught: "r = Inr () \<and> last_event_id s1 = c \<and> handed = h
              \<and> logged (world s1)
                  = logged w1 @ [LogErrorTraceback e, LogDebugWaiting 2 (shotgrid_polling_frequency L)]
              \<and> trace (world s1) = trace w1 @ [Sleep (shotgrid_polling_frequency L)]"
    if a: "base_sg_filters s \<noteq> []" "py_truthy (last_event_id s)"
      and tb: "try_block L f types (base_sg_filters s @ [IdGreaterThan (last_event_id s)])
                   (last_event_id s) (world s) = (Some e, b, c, w1, h)"
    for e b c w1 h
  proof -
    obtain r' c' w' h' where
      p: "poll L f types (base_sg_filters s) (last_event_id s) (world s) = (r', c', w', h')"
      by (cases "poll L f types (base_sg_filters s) (last_event_id s) (world s)")
    from poll_after_exception[OF freq tb p] a it p show ?thesis
      by (auto simp: loop_iteration_def)
  qed
  have escaped: "(base_sg_filters s = []
               \<and> fst (build_shotgrid_filters L
                        (snd (py_sleep (shotgrid_polling_frequency L)
                               (log_msg (LogDebugWaiting 0 (shotgrid_polling_frequency L)) (world s)))))
                   = Inl e)
          \<or> (base_sg_filters s \<noteq> [] \<and> \<not> py_truthy (last_event_id s)
               \<and> fst (get_last_event_processed L (base_sg_filters s) (world s)) = Inl e)"
    if r: "r = Inl e" for e
  proof (cases "base_sg_filters s = []")
    case True
    with it r freq show ?thesis
      by (auto simp: loop_iteration_def py_sleep_def split: prod.splits sum.splits)
  next
    case False
    show ?thesis
    proof (cases "py_truthy (last_event_id s)")
      case True
      from inside[OF False True] r show ?thesis by simp
    next
      case nt: False
      obtain rg wg where g: "get_last_event_processed L (base_sg_filters s) (world s) = (rg, wg)"
        by (cases "get_last_event_processed L (base_sg_filters s) (world s)")
      show ?thesis
      proof (cases rg)
        case (Inl e')
        with False nt it r g show ?thesis by (simp add: loop_iteration_def)
      next
        case (Inr cur)
        obtain r' c' w' h' where p: "poll L f types (base_sg_filters s) cur wg = (r', c', w', h')"
          by (cases "poll L f types (base_sg_filters s) cur wg")
        with False nt it r g Inr polled[OF p] show ?thesis by (simp add: loop_iteration_def)
      qed
    qed
  qed
  from inside caught escaped show ?thesis by blast
qed

theorem exceptions_in_try_block_are_isolated_witness:
  "0 \<le> shotgrid_polling_frequency ex_listener
   \<and> base_sg_filters ex_state \<noteq> [] \<and> py_truthy (last_event_id ex_state)
   \<and> fst (try_block ex_listener ex_failing_func ex_types
             (base_sg_filters ex_state @ [IdGreaterThan (last_event_id ex_state)])
             (last_event_id ex_state) (world ex_state)) = Some (Fault ''sink down'')
   \<and> fst (loop_iteration ex_listener ex_failing_func ex_types ex_state) = Inr ()
   \<and> logged (world (fst (snd (loop_iteration ex_listener ex_failing_func ex_types ex_state))))
       = [LogInfoFound 3, LogErrorTraceback (Fault ''sink down''), LogDebugWaiting 2 10]
   \<and> trace (world (fst (snd (loop_iteration ex_listener ex_failing_func ex_types ex_state))))
       = [SgFindEvents (ex_filters @ [IdGreaterThan (PInt 41)]), Sleep 10]"
proof -
  let ?it = "loop_iteration ex_listener ex_failing_func ex_types ex_state"
  let ?tb = "try_block ex_listener ex_failing_func ex_types
               (base_sg_filters ex_state @ [IdGreaterThan (last_event_id ex_state)])
               (last_event_id ex_state) (world ex_state)"
  have freq: "0 \<le> shotgrid_polling_frequency ex_listener" by code_simp
  have ne: "base_sg_filters ex_state \<noteq> []" by code_simp
  have tr: "py_truthy (last_event_id ex_state)" by code_simp
  have raised: "fst ?tb = Some (Fault ''sink down'')" by code_simp
  have it: "?it = (fst ?it, fst (snd ?it), snd (snd ?it))" by simp
  have tb: "?tb = (Some (Fault ''sink down''), fst (snd ?tb), fst (snd (snd ?tb)),
                   fst (snd (snd (snd ?tb))), snd (snd (snd (snd ?tb))))"
    unfolding raised[symmetric] by simp
  have l1: "logged (fst (snd (snd (snd ?tb)))) = [LogInfoFound 3]" by code_simp
  have t1: "trace (fst (snd (snd (snd ?tb)))) = [SgFindEvents (ex_filters @ [IdGreaterThan (PInt 41)])]"
    by code_simp
  have f: "shotgrid_polling_frequency ex_listener = 10" by code_simp
  from exceptions_in_try_block_are_isolated[OF freq it] ne tr tb
  have "fst ?it = Inr ()
      \<and> logged (world (fst (snd ?it))) = logged (fst (snd (snd (snd ?tb))))
           @ [LogErrorTraceback (Fault ''sink down''),
              LogDebugWaiting 2 (shotgrid_polling_frequency ex_listener)]
      \<and> trace (world (fst (snd ?it))) = trace (fst (snd (snd (snd ?tb))))
           @ [Sleep (shotgrid_polling_frequency ex_listener)]"
    by blast
  with freq ne tr raised l1 t1 f show ?thesis by simp
qed

text \<open>The claim as it was stated fails for the filter rebuild: with no synced project the
  loop rebuilds its filters outside the \<^verbatim>\<open>try\<close> block, and a failure of that query
  ends \<^verbatim>\<open>start_listening\<close>.\<close>

theorem rebuild_exception_escapes_counterexample:
  "isl (start_listening ex_listener (default_func ex_listener) 1 ex_faulty_idle_world)
   \<and> fst (projl (start_listening ex_listener (default_func ex_listener) 1 ex_faulty_idle_world))
       = Fault ''connection lost''
   \<and> trace (snd (projl (start_listening ex_listener (default_func ex_listener) 1 ex_faulty_idle_world)))
       = [SgFindProjects, AyonGetEvents [''shotgrid.leech''], SgFindOneEvent [], Sleep 10,
          SgFindProjects]"
  by code_simp

section \<open>Classification of events\<close>

lemma is_custom_attrib_change_truthy:
  "is_custom_attrib_change L event = Inr b \<Longrightarrow> py_truthy event"
  by (cases event) (auto simp: is_custom_attrib_change_def bind_err_def split: option.splits)

lemma classify_relevant:
  assumes "is_custom_attrib_change L event = Inr True
           \<or> (is_custom_attrib_change L event = Inr False \<and> is_supported_event types event = Inr True)"
  shows "classify L types event cursor = id_unless_api_user event"
  using assms by (auto simp: classify_def bind_err_def)

lemma classify_irrelevant:
  assumes "is_custom_attrib_change L event = Inr False" "is_supported_event types event = Inr False"
  shows "classify L types event cursor = Inr cursor"
  using assms by (auto simp: classify_def bind_err_def)

lemma field_py_get: "field event k = Some v \<Longrightarrow> py_get event k d = Inr v"
  by (cases event) auto

lemma for_events_self_caused:
  assumes rel: "is_custom_attrib_change L event = Inr True
           \<or> (is_custom_attrib_change L event = Inr False \<and> is_supported_event types event = Inr True)"
    and api: "is_api_user_event event = Inr True"
  shows "for_events L f types (event # events) cursor w
           = for_events L f types events PNone (log_msg (LogInfoIgnoring event) w)"
proof -
  from rel have t: "py_truthy event" by (auto dest: is_custom_attrib_change_truthy)
  from api have "classify L types event cursor = Inr PNone"
    by (simp add: classify_relevant[OF rel] id_unless_api_user_def bind_err_def)
  with t show ?thesis by simp
qed

lemma for_events_failed_dispatch:
  assumes rel: "is_custom_attrib_change L event = Inr True
           \<or> (is_custom_attrib_change L event = Inr False \<and> is_supported_event types event = Inr True)"
    and api: "is_api_user_event event = Inr False"
    and id: "field event ''id'' = Some (PInt n)" and nz: "n \<noteq> 0"
    and fail: "f event w = (Inl err, w1)"
  shows "for_events L f types (event # events) cursor w = (Some err, PInt n, w1, [event])"
proof -
  from rel have t: "py_truthy event" by (auto dest: is_custom_attrib_change_truthy)
  from api id have "classify L types event cursor = Inr (PInt n)"
    by (simp add: classify_relevant[OF rel] id_unless_api_user_def bind_err_def field_py_get)
  with t nz fail show ?thesis by simp
qed

text \<open>
  C3. The code does not do what the claim says. Event 50 passes neither test of the loop
  body (its attribute is not mapped and, with no enabled entity, no event type is
  supported), and the query without an event-type filter does fetch it. The cursor is
  known (41), so the test \<^verbatim>\<open>if not last_event_id\<close> sees that stale value, the event is
  not ignored: it is handed to \<^verbatim>\<open>self.func\<close>, dispatched to AYON, and the cursor moves
  to its id.
\<close>

theorem irrelevant_event_is_dispatched:
  "is_custom_attrib_change ex_listener_no_entities ev50 = Inr False
   \<and> is_supported_event (get_supported_event_types ex_listener_no_entities) ev50 = Inr False
   \<and> fst (sg_find_events (base_sg_filters ex_state_no_entities @ [IdGreaterThan (PInt 41)])
            (SG_EVENT_QUERY_FIELDS ex_listener_no_entities) (world ex_state_no_entities)) = Inr [ev50]
   \<and> snd (snd (loop_iteration ex_listener_no_entities (default_func ex_listener_no_entities)
                  (get_supported_event_types ex_listener_no_entities) ex_state_no_entities)) = [ev50]
   \<and> last_event_id (fst (snd (loop_iteration ex_listener_no_entities (default_func ex_listener_no_entities)
                  (get_supported_event_types ex_listener_no_entities) ex_state_no_entities))) = PInt 50
   \<and> map ev_hash (ayon_events (world (fst (snd (loop_iteration ex_listener_no_entities
                  (default_func ex_listener_no_entities)
                  (get_supported_event_types ex_listener_no_entities) ex_state_no_entities)))))
       = [PInt 50]"
  by code_simp

lemma for_events_append:
  "for_events L f types (xs @ ys) c w =
     (case for_events L f types xs c w of
        (None, c1, w1, h1) \<Rightarrow>
          (case for_events L f types ys c1 w1 of (r, c2, w2, h2) \<Rightarrow> (r, c2, w2, h1 @ h2))
      | (Some e, c1, w1, h1) \<Rightarrow> (Some e, c1, w1, h1))"
proof (induction xs arbitrary: c w)
  case Nil
  then show ?case by (simp split: prod.splits)
next
  case (Cons x xs)
  show ?case
    by (simp add: Cons.IH split: prod.splits sum.splits option.splits)
qed

lemma for_events_accepted:
  assumes rel: "is_custom_attrib_change L event = Inr True
           \<or> (is_custom_attrib_change L event = Inr False \<and> is_supported_event types event = Inr True)"
    and api: "is_api_user_event event = Inr False"
    and id: "field event ''id'' = Some (PInt n)" and nz: "n \<noteq> 0"
    and ok: "f event w = (Inr v, w1)"
  shows "for_events L f types (event # events) cursor w =
           (case for_events L f types events v w1 of (r, c, w2, h) \<Rightarrow> (r, c, w2, event # h))"
proof -
  from rel have t: "py_truthy event" by (auto dest: is_custom_attrib_change_truthy)
  from api id have "classify L types event cursor = Inr (PInt n)"
    by (simp add: classify_relevant[OF rel] id_unless_api_user_def bind_err_def field_py_get)
  with t nz ok show ?thesis by simp
qed

text \<open>
  C5, as amended. An event that takes one of the two branches of the loop body and was
  caused by an API user (under sudo) is not handed to \<^verbatim>\<open>self.func\<close>, and it sets the
  cursor to None whatever the cursor was; the rest of the batch goes on from the unknown
  cursor. When that event is the last of its batch, the pass ends with the cursor None,
  and the next pass resolves the cursor with \<^verbatim>\<open>_get_last_event_processed\<close> and polls
  from the resolved value (or ends with the exception of the resolution); the resolved
  value can be the id of that very event, when it is the newest matching event in
  ShotGrid. An accepted event that follows in the same batch sets the cursor from its own
  dispatch instead, without any resolution. The poll interval is taken to be non-negative.
\<close>

theorem self_caused_event_resets_cursor:
  assumes rel: "is_custom_attrib_change L event = Inr True
           \<or> (is_custom_attrib_change L event = Inr False \<and> is_supported_event types event = Inr True)"
    and api: "is_api_user_event event = Inr True"
  shows "for_events L f types (event # events) cursor w
           = for_events L f types events PNone (log_msg (LogInfoIgnoring event) w)
       \<and> (\<forall>pre c1 w1 h1.
            for_events L f types pre cursor w = (None, c1, w1, h1)
            \<longrightarrow> for_events L f types (pre @ [event]) cursor w
                  = (None, PNone, log_msg (LogInfoIgnoring event) w1, h1))
       \<and> (\<forall>s pre w0 c1 w1 h1.
            0 \<le> shotgrid_polling_frequency L
            \<and> base_sg_filters s \<noteq> [] \<and> py_truthy (last_event_id s)
            \<and> sg_find_events (base_sg_filters s @ [IdGreaterThan (last_event_id s)])
                 (SG_EVENT_QUERY_FIELDS L) (world s) = (Inr (pre @ [event]), w0)
            \<and> for_events L f types pre (last_event_id s)
                 (log_msg (LogInfoFound (length (pre @ [event]))) w0) = (None, c1, w1, h1)
            \<longrightarrow> (\<exists>s1. loop_iteration L f types s = (Inr (), s1, h1)
                     \<and> last_event_id s1 = PNone \<and> base_sg_filters s1 = base_sg_filters s
                     \<and> (\<forall>r s2 h2. loop_iteration L f types s1 = (r, s2, h2) \<longrightarrow>
                           (\<exists>e w2. get_last_event_processed L (base_sg_filters s) (world s1) = (Inl e, w2)
                                    \<and> r = Inl e)
                         \<or> (\<exists>c w2. get_last_event_processed L (base_sg_filters s) (world s1) = (Inr c, w2)
                                    \<and> poll L f types (base_sg_filters s) c w2
                                         = (r, last_event_id s2, world s2, h2)))))
       \<and> (\<forall>later n v w1.
            (is_custom_attrib_change L later = Inr True
               \<or> (is_custom_attrib_change L later = Inr False \<and> is_supported_event types later = Inr True))
            \<and> is_api_user_event later = Inr False
            \<and> field later ''id'' = Some (PInt n) \<and> n \<noteq> 0
            \<and> f later (log_msg (LogInfoIgnoring event) w) = (Inr v, w1)
            \<longrightarrow> for_events L f types [event, later] cursor w = (None, v, w1, [later]))"
proof -
  have skip: "for_events L f types (event # events) cursor w
           = for_events L f types events PNone (log_msg (LogInfoIgnoring event) w)"
    for events cursor w
    by (rule for_events_self_caused[OF rel api])
  have last: "for_events L f types (pre @ [event]) cursor w
                  = (None, PNone, log_msg (LogInfoIgnoring event) w1, h1)"
    if "for_events L f types pre cursor w = (None, c1, w1, h1)" for pre cursor w c1 w1 h1
  proof -
    have "for_events L f types [event] c1 w1 = (None, PNone, log_msg (LogInfoIgnoring event) w1, [])"
      using skip[of "[]" c1 w1] by simp
    with that show ?thesis
      by (simp only: for_events_append prod.case option.case append_Nil2)
  qed
  have pass: "\<exists>s1. loop_iteration L f types s = (Inr (), s1, h1)
                     \<and> last_event_id s1 = PNone \<and> base_sg_filters s1 = base_sg_filters s
                     \<and> (\<forall>r s2 h2. loop_iteration L f types s1 = (r, s2, h2) \<longrightarrow>
                           (\<exists>e w2. get_last_event_processed L (base_sg_filters s) (world s1) = (Inl e, w2)
                                    \<and> r = Inl e)
                         \<or> (\<exists>c w2. get_last_event_processed L (base_sg_filters s) (world s1) = (Inr c, w2)
                                    \<and> poll L f types (base_sg_filters s) c w2
                                         = (r, last_event_id s2, world s2, h2)))"
    if freq: "0 \<le> shotgrid_polling_frequency L"
      and ne: "base_sg_filters s \<noteq> []" and tr: "py_truthy (last_event_id s)"
      and fetch: "sg_find_events (base_sg_filters s @ [IdGreaterThan (last_event_id s)])
                 (SG_EVENT_QUERY_FIELDS L) (world s) = (Inr (pre @ [event]), w0)"
      and before: "for_events L f types pre (last_event_id s)
                 (log_msg (LogInfoFound (length (pre @ [event]))) w0) = (None, c1, w1, h1)"
    for s pre w0 c1 w1 h1
  proof -
    let ?w2 = "log_msg (LogDebugWaiting 2 (shotgrid_polling_frequency L))
                 (log_msg (LogInfoIgnoring event) w1)"
    let ?w3 = "?w2\<lparr>trace := trace ?w2 @ [Sleep (shotgrid_polling_frequency L)]\<rparr>"
    let ?s1 = "s\<lparr>last_event_id := PNone, world := ?w3\<rparr>"
    have tb: "try_block L f types (base_sg_filters s @ [IdGreaterThan (last_event_id s)])
            (last_event_id s) (world s)
          = (None, False, PNone, log_msg (LogInfoIgnoring event) w1, h1)"
      using fetch last[OF before] by (simp add: try_block_def)
    have it: "loop_iteration L f types s = (Inr (), ?s1, h1)"
      using freq ne tr tb by (simp add: loop_iteration_def poll_def py_sleep_def Let_def)
    have nxt: "(\<exists>e w2. get_last_event_processed L (base_sg_filters s) (world ?s1) = (Inl e, w2)
                                    \<and> r = Inl e)
                         \<or> (\<exists>c w2. get_last_event_processed L (base_sg_filters s) (world ?s1) = (Inr c, w2)
                                    \<and> poll L f types (base_sg_filters s) c w2
                                         = (r, last_event_id s2, world s2, h2))"
      if "loop_iteration L f types ?s1 = (r, s2, h2)" for r s2 h2
      using that ne by (auto simp: loop_iteration_def split: prod.splits sum.splits)
    from it nxt show ?thesis by (intro exI[of _ ?s1]) simp
  qed
  have later: "for_events L f types [event, later] cursor w = (None, v, w1, [later])"
    if "is_custom_attrib_change L later = Inr True
               \<or> (is_custom_attrib_change L later = Inr False \<and> is_supported_event types later = Inr True)"
      and "is_api_user_event later = Inr False"
      and "field later ''id'' = Some (PInt n)" and "n \<noteq> 0"
      and "f later (log_msg (LogInfoIgnoring event) w) = (Inr v, w1)"
    for later n v w1 cursor w
  proof -
    have a: "for_events L f types [later] PNone (log_msg (LogInfoIgnoring event) w)
           = (case for_events L f types [] v w1 of (r, c, w2, h) \<Rightarrow> (r, c, w2, later # h))"
      by (rule for_events_accepted[where f = f and event = later
        and w = "log_msg (LogInfoIgnoring event) w" and events = "[]" and cursor = PNone, OF that])
    have b: "for_events L f types [] v w1 = (None, v, w1, [])" by simp
    show ?thesis by (simp only: skip a b prod.case)
  qed
  have c2: "\<forall>pre c1 w1 h1.
            for_events L f types pre cursor w = (None, c1, w1, h1)
            \<longrightarrow> for_events L f types (pre @ [event]) cursor w
                  = (None, PNone, log_msg (LogInfoIgnoring event) w1, h1)"
    using last by blast
  have c3: "\<forall>s pre w0 c1 w1 h1.
            0 \<le> shotgrid_polling_frequency L
            \<and> base_sg_filters s \<noteq> [] \<and> py_truthy (last_event_id s)
            \<and> sg_find_events (base_sg_filters s @ [IdGreaterThan (last_event_id s)])
                 (SG_EVENT_QUERY_FIELDS L) (world s) = (Inr (pre @ [event]), w0)
            \<and> for_events L f types pre (last_event_id s)
                 (log_msg (LogInfoFound (length (pre @ [event]))) w0) = (None, c1, w1, h1)
            \<longrightarrow> (\<exists>s1. loop_iteration L f types s = (Inr (), s1, h1)
                     \<and> last_event_id s1 = PNone \<and> base_sg_filters s1 = base_sg_filters s
                     \<and> (\<forall>r s2 h2. loop_iteration L f types s1 = (r, s2, h2) \<longrightarrow>
                           (\<exists>e w2. get_last_event_processed L (base_sg_filters s) (world s1) = (Inl e, w2)
                                    \<and> r = Inl e)
                         \<or> (\<exists>c w2. get_last_event_processed L (base_sg_filters s) (world s1) = (Inr c, w2)
                                    \<and> poll L f types (base_sg_filters s) c w2
                                         = (r, last_event_id s2, world s2, h2))))"
  proof (intro allI impI)
    fix s :: lstate and pre w0 c1 w1 h1
    assume a: "0 \<le> shotgrid_polling_frequency L
            \<and> base_sg_filters s \<noteq> [] \<and> py_truthy (last_event_id s)
            \<and> sg_find_events (base_sg_filters s @ [IdGreaterThan (last_event_id s)])
                 (SG_EVENT_QUERY_FIELDS L) (world s) = (Inr (pre @ [event]), w0)
            \<and> for_events L f types pre (last_event_id s)
                 (log_msg (LogInfoFound (length (pre @ [event]))) w0) = (None, c1, w1, h1)"
    from a have a1: "0 \<le> shotgrid_polling_frequency L" and a2: "base_sg_filters s \<noteq> []"
      and a3: "py_truthy (last_event_id s)"
      and a4: "sg_find_events (base_sg_filters s @ [IdGreaterThan (last_event_id s)])
                 (SG_EVENT_QUERY_FIELDS L) (world s) = (Inr (pre @ [event]), w0)"
      and a5: "for_events L f types pre (last_event_id s)
                 (log_msg (LogInfoFound (length (pre @ [event]))) w0) = (None, c1, w1, h1)"
      by simp_all
    show "\<exists>s1. loop_iteration L f types s = (Inr (), s1, h1)
                     \<and> last_event_id s1 = PNone \<and> base_sg_filters s1 = base_sg_filters s
                     \<and> (\<forall>r s2 h2. loop_iteration L f types s1 = (r, s2, h2) \<longrightarrow>
                           (\<exists>e w2. get_last_event_processed L (base_sg_filters s) (world s1) = (Inl e, w2)
                                    \<and> r = Inl e)
                         \<or> (\<exists>c w2. get_last_event_processed L (base_sg_filters s) (world s1) = (Inr c, w2)
                                    \<and> poll L f types (base_sg_filters s) c w2
                                         = (r, last_event_id s2, world s2, h2)))"
      by (rule pass[OF a1 a2 a3 a4 a5])
  qed
  have c4: "\<forall>later n v w1.
            (is_custom_attrib_change L later = Inr True
               \<or> (is_custom_attrib_change L later = Inr False \<and> is_supported_event types later = Inr True))
            \<and> is_api_user_event later = Inr False
            \<and> field later ''id'' = Some (PInt n) \<and> n \<noteq> 0
            \<and> f later (log_msg (LogInfoIgnoring event) w) = (Inr v, w1)
            \<longrightarrow> for_events L f types [event, later] cursor w = (None, v, w1, [later])"
  proof (intro allI impI)
    fix later' n v w1
    assume a: "(is_custom_attrib_change L later' = Inr True
               \<or> (is_custom_attrib_change L later' = Inr False \<and> is_supported_event types later' = Inr True))
            \<and> is_api_user_event later' = Inr False
            \<and> field later' ''id'' = Some (PInt n) \<and> n \<noteq> 0
            \<and> f later' (log_msg (LogInfoIgnoring event) w) = (Inr v, w1)"
    from a have b1: "is_custom_attrib_change L later' = Inr True
               \<or> (is_custom_attrib_change L later' = Inr False \<and> is_supported_event types later' = Inr True)"
      and b2: "is_api_user_event later' = Inr False"
      and b3: "field later' ''id'' = Some (PInt n)" and b4: "n \<noteq> 0"
      and b5: "f later' (log_msg (LogInfoIgnoring event) w) = (Inr v, w1)"
      by simp_all
    show "for_events L f types [event, later'] cursor w = (None, v, w1, [later'])"
      by (rule later[OF b1 b2 b3 b4 b5])
  qed
  from skip[of events cursor w] c2 c3 c4 show ?thesis by (intro conjI)
qed

theorem self_caused_event_resets_cursor_witness:
  "is_custom_attrib_change ex_listener ev43 = Inr True
   \<and> is_api_user_event ev43 = Inr True
   \<and> for_events ex_listener ex_func ex_types [ev43] (PInt 42) (ex_world [])
       = (None, PNone, log_msg (LogInfoIgnoring ev43) (ex_world []), [])
   \<and> fst (sg_find_events (base_sg_filters ex_state_two_events
                            @ [IdGreaterThan (last_event_id ex_state_two_events)])
            (SG_EVENT_QUERY_FIELDS ex_listener) (world ex_state_two_events)) = Inr ([ev42] @ [ev43])
   \<and> last_event_id (fst (snd (loop_iteration ex_listener ex_func ex_types ex_state_two_events))) = PNone
   \<and> fst (get_last_event_processed ex_listener ex_filters
            (world (fst (snd (loop_iteration ex_listener ex_func ex_types ex_state_two_events)))))
       = Inr (PInt 43)
   \<and> last_event_id (projr (listen_loop ex_listener ex_func ex_types 2 ex_state_two_events)) = PInt 43
   \<and> for_events ex_listener ex_func ex_types [ev43, ev44] (PInt 42) (ex_world [])
       = (None, PInt 44, log_msg (LogInfoIgnoring ev43) (ex_world []), [ev44])"
proof -
  let ?s = "ex_state_two_events"
  let ?q = "sg_find_events (base_sg_filters ?s @ [IdGreaterThan (last_event_id ?s)])
              (SG_EVENT_QUERY_FIELDS ex_listener) (world ?s)"
  let ?p = "for_events ex_listener ex_func ex_types [ev42] (last_event_id ?s)
              (log_msg (LogInfoFound (length ([ev42] @ [ev43]))) (snd ?q))"
  let ?it = "loop_iteration ex_listener ex_func ex_types ?s"
  have rel: "is_custom_attrib_change ex_listener ev43 = Inr True" by code_simp
  have api: "is_api_user_event ev43 = Inr True" by code_simp
  have rel': "is_custom_attrib_change ex_listener ev43 = Inr True
           \<or> (is_custom_attrib_change ex_listener ev43 = Inr False
               \<and> is_supported_event ex_types ev43 = Inr True)"
    using rel by simp
  note inst = self_caused_event_resets_cursor[where f = ex_func and cursor = "PInt 42"
      and w = "ex_world []" and events = "[]", OF rel' api]
  from inst have one: "for_events ex_listener ex_func ex_types [ev43] (PInt 42) (ex_world [])
       = (None, PNone, log_msg (LogInfoIgnoring ev43) (ex_world []), [])"
    by simp
  have freq: "0 \<le> shotgrid_polling_frequency ex_listener" by code_simp
  have ne: "base_sg_filters ?s \<noteq> []" by code_simp
  have tr: "py_truthy (last_event_id ?s)" by code_simp
  have q: "fst ?q = Inr ([ev42] @ [ev43])" by code_simp
  have q': "?q = (Inr ([ev42] @ [ev43]), snd ?q)" unfolding q[symmetric] by simp
  have p: "fst ?p = None" by code_simp
  have p': "?p = (None, fst (snd ?p), fst (snd (snd ?p)), snd (snd (snd ?p)))"
    unfolding p[symmetric] by simp
  from inst have pass: "\<forall>s pre w0 c1 w1 h1.
            0 \<le> shotgrid_polling_frequency ex_listener
            \<and> base_sg_filters s \<noteq> [] \<and> py_truthy (last_event_id s)
            \<and> sg_find_events (base_sg_filters s @ [IdGreaterThan (last_event_id s)])
                 (SG_EVENT_QUERY_FIELDS ex_listener) (world s) = (Inr (pre @ [ev43]), w0)
            \<and> for_events ex_listener ex_func ex_types pre (last_event_id s)
                 (log_msg (LogInfoFound (length (pre @ [ev43]))) w0) = (None, c1, w1, h1)
            \<longrightarrow> (\<exists>s1. loop_iteration ex_listener ex_func ex_types s = (Inr (), s1, h1)
                     \<and> last_event_id s1 = PNone)"
    by blast
  from pass[rule_format, of ?s "[ev42]" "snd ?q" "fst (snd ?p)" "fst (snd (snd ?p))" "snd (snd (snd ?p))"]
    freq ne tr q' p'
  have "\<exists>s1. ?it = (Inr (), s1, snd (snd (snd ?p))) \<and> last_event_id s1 = PNone"
    by blast
  then have unknown: "last_event_id (fst (snd ?it)) = PNone" by auto
  have resolved: "fst (get_last_event_processed ex_listener ex_filters (world (fst (snd ?it))))
       = Inr (PInt 43)" by code_simp
  have two: "last_event_id (projr (listen_loop ex_listener ex_func ex_types 2 ?s)) = PInt 43"
    by code_simp
  have l1: "is_custom_attrib_change ex_listener ev44 = Inr False" by code_simp
  have l2: "is_supported_event ex_types ev44 = Inr True" by code_simp
  have l3: "is_api_user_event ev44 = Inr False" by code_simp
  have l4: "field ev44 ''id'' = Some (PInt 44)" by code_simp
  have l5: "py_subscript ev44 ''id'' = Inr (PInt 44)" by code_simp
  have l6: "ex_func ev44 (log_msg (LogInfoIgnoring ev43) (ex_world []))
              = (Inr (PInt 44), log_msg (LogInfoIgnoring ev43) (ex_world []))"
    by (simp add: ex_func_def l5)
  from inst have later: "\<forall>later n v w1.
            (is_custom_attrib_change ex_listener later = Inr True
               \<or> (is_custom_attrib_change ex_listener later = Inr False
                   \<and> is_supported_event ex_types later = Inr True))
            \<and> is_api_user_event later = Inr False
            \<and> field later ''id'' = Some (PInt n) \<and> n \<noteq> 0
            \<and> ex_func later (log_msg (LogInfoIgnoring ev43) (ex_world [])) = (Inr v, w1)
            \<longrightarrow> for_events ex_listener ex_func ex_types [ev43, later] (PInt 42) (ex_world [])
                  = (None, v, w1, [later])"
    by blast
  from later[rule_format, of ev44 44 "PInt 44" "log_msg (LogInfoIgnoring ev43) (ex_world [])"]
    l1 l2 l3 l4 l6
  have after: "for_events ex_listener ex_func ex_types [ev43, ev44] (PInt 42) (ex_world [])
       = (None, PInt 44, log_msg (LogInfoIgnoring ev43) (ex_world []), [ev44])"
    by simp
  from rel api one q unknown resolved two after show ?thesis by (intro conjI)
qed

text \<open>The claim as it was stated fails when an accepted event follows in the same batch:
  after the self-caused event 43 the cursor is next set to 44 by the dispatch of event 44,
  and neither this pass nor the next one queries the AYON history or asks ShotGrid for its
  newest event.\<close>

theorem later_event_sets_cursor_counterexample:
  "is_custom_attrib_change ex_listener ev43 = Inr True
   \<and> is_api_user_event ev43 = Inr True
   \<and> fst (sg_find_events (ex_filters @ [IdGreaterThan (PInt 42)]) (SG_EVENT_QUERY_FIELDS ex_listener)
            (ex_world ex_log)) = Inr [ev43, ev44]
   \<and> last_event_id (projr (listen_loop ex_listener (default_func ex_listener) ex_types 2
                             (ex_state\<lparr>last_event_id := PInt 42\<rparr>))) = PInt 44
   \<and> trace (world (projr (listen_loop ex_listener (default_func ex_listener) ex_types 2
                             (ex_state\<lparr>last_event_id := PInt 42\<rparr>))))
       = [SgFindEvents (ex_filters @ [IdGreaterThan (PInt 42)]),
          SgFindOneProject (PInt 1), AyonDispatchEvent ''shotgrid.event'' (PInt 44), Sleep 10,
          SgFindEvents (ex_filters @ [IdGreaterThan (PInt 44)]), Sleep 10]"
  by code_simp

section \<open>A dispatch that fails\<close>

lemma sg_select_matches:
  "e \<in> set (sg_select filters w) \<Longrightarrow> list_all (sg_matches e) filters"
  by (auto simp: sg_select_def)

lemma sg_find_events_above_cursor:
  assumes "sg_find_events (base @ [IdGreaterThan (PInt n)]) fs w = (Inr batch, w1)"
    and "e \<in> set batch"
  shows "\<exists>m. field e ''id'' = Some (PInt m) \<and> n < m"
proof -
  from assms(1) have "batch = map (event_record fs) (take 50 (sg_select (base @ [IdGreaterThan (PInt n)])
                                                                 (snd (external_call (SgFindEvents (base @ [IdGreaterThan (PInt n)])) w))))"
    by (auto simp: sg_find_events_def split: prod.splits option.splits if_splits)
  with assms(2) obtain x where x: "x \<in> set (sg_select (base @ [IdGreaterThan (PInt n)])
                                               (snd (external_call (SgFindEvents (base @ [IdGreaterThan (PInt n)])) w)))"
    and e: "e = event_record fs x"
    by (auto dest: in_set_takeD)
  from sg_select_matches[OF x] have "n < entry_id x" by simp
  with e show ?thesis by (simp add: event_record_def)
qed

text \<open>
  C6, as amended. An accepted event (one that takes a branch of the loop body, not caused
  by an API user, with a non-zero integer id) has its id assigned to the cursor before
  \<^verbatim>\<open>self.func\<close> is called. If \<^verbatim>\<open>self.func\<close> raises, the cursor therefore holds the
  id of the failed event, whatever it was before; the rest of the batch is abandoned and
  the iteration ends normally with that cursor. The next query asks for ids above it, and
  every event it returns has a larger id: the failed event is not fetched again.
\<close>

theorem failed_dispatch_keeps_event_id:
  assumes rel: "is_custom_attrib_change L event = Inr True
           \<or> (is_custom_attrib_change L event = Inr False \<and> is_supported_event types event = Inr True)"
    and api: "is_api_user_event event = Inr False"
    and id: "field event ''id'' = Some (PInt n)" and nz: "n \<noteq> 0"
    and fail: "f event w = (Inl err, w1)"
  shows "for_events L f types (event # events) cursor w = (Some err, PInt n, w1, [event])
       \<and> (\<forall>s w0. 0 \<le> shotgrid_polling_frequency L
             \<and> base_sg_filters s \<noteq> [] \<and> py_truthy (last_event_id s)
             \<and> sg_find_events (base_sg_filters s @ [IdGreaterThan (last_event_id s)])
                  (SG_EVENT_QUERY_FIELDS L) (world s) = (Inr (event # events), w0)
             \<and> w = log_msg (LogInfoFound (length (event # events))) w0
            \<longrightarrow> (\<exists>s1. loop_iteration L f types s = (Inr (), s1, [event])
                      \<and> last_event_id s1 = PInt n \<and> base_sg_filters s1 = base_sg_filters s))
       \<and> (\<forall>base fs w2 batch w3.
            sg_find_events (base @ [IdGreaterThan (PInt n)]) fs w2 = (Inr batch, w3)
            \<longrightarrow> (\<forall>e \<in> set batch. \<exists>m. field e ''id'' = Some (PInt m) \<and> n < m))"
proof -
  have batch: "for_events L f types (event # events) cursor w = (Some err, PInt n, w1, [event])"
    for cursor
    by (rule for_events_failed_dispatch[where f = f and event = event and w = w, OF rel api id nz fail])
  have iter: "\<exists>s1. loop_iteration L f types s = (Inr (), s1, [event])
                      \<and> last_event_id s1 = PInt n \<and> base_sg_filters s1 = base_sg_filters s"
    if freq: "0 \<le> shotgrid_polling_frequency L"
      and ne: "base_sg_filters s \<noteq> []" and tr: "py_truthy (last_event_id s)"
      and fetch: "sg_find_events (base_sg_filters s @ [IdGreaterThan (last_event_id s)])
                  (SG_EVENT_QUERY_FIELDS L) (world s) = (Inr (event # events), w0)"
      and w: "w = log_msg (LogInfoFound (length (event # events))) w0"
    for s w0
  proof -
    have "try_block L f types (base_sg_filters s @ [IdGreaterThan (last_event_id s)])
            (last_event_id s) (world s) = (Some err, False, PInt n, w1, [event])"
      using fetch w batch[of "last_event_id s"] by (simp add: try_block_def)
    with freq ne tr show ?thesis
      by (simp add: loop_iteration_def poll_def py_sleep_def Let_def)
  qed
  have next_query: "\<forall>e \<in> set batch. \<exists>m. field e ''id'' = Some (PInt m) \<and> n < m"
    if "sg_find_events (base @ [IdGreaterThan (PInt n)]) fs w2 = (Inr batch, w3)"
    for base fs w2 batch w3
    using sg_find_events_above_cursor[OF that] by blast
  from batch iter next_query show ?thesis by blast
qed

theorem failed_dispatch_keeps_event_id_witness:
  "is_custom_attrib_change ex_listener ev42 = Inr True
   \<and> is_api_user_event ev42 = Inr False
   \<and> field ev42 ''id'' = Some (PInt 42) \<and> (42 :: int) \<noteq> 0
   \<and> ex_failing_func ev42 (ex_world []) = (Inl (Fault ''sink down''), ex_world [])
   \<and> for_events ex_listener ex_failing_func ex_types [ev42, ev43] (PInt 41) (ex_world [])
       = (Some (Fault ''sink down''), PInt 42, ex_world [], [ev42])
   \<and> fst (sg_find_events (ex_filters @ [IdGreaterThan (PInt 42)]) (SG_EVENT_QUERY_FIELDS ex_listener)
            (ex_world ex_log)) = Inr [ev43, ev44]
   \<and> (\<exists>m. field ev43 ''id'' = Some (PInt m) \<and> 42 < m)
   \<and> (\<exists>m. field ev44 ''id'' = Some (PInt m) \<and> 42 < m)"
proof -
  let ?q = "sg_find_events (ex_filters @ [IdGreaterThan (PInt 42)]) (SG_EVENT_QUERY_FIELDS ex_listener)
              (ex_world ex_log)"
  have rel: "is_custom_attrib_change ex_listener ev42 = Inr True" by code_simp
  have api: "is_api_user_event ev42 = Inr False" by code_simp
  have id: "field ev42 ''id'' = Some (PInt 42)" by code_simp
  have nz: "(42 :: int) \<noteq> 0" by simp
  have fail: "ex_failing_func ev42 (ex_world []) = (Inl (Fault ''sink down''), ex_world [])"
    by (simp add: ex_failing_func_def)
  have q: "fst ?q = Inr [ev43, ev44]" by code_simp
  have q': "?q = (Inr [ev43, ev44], snd ?q)" unfolding q[symmetric] by simp
  have rel': "is_custom_attrib_change ex_listener ev42 = Inr True
           \<or> (is_custom_attrib_change ex_listener ev42 = Inr False
               \<and> is_supported_event ex_types ev42 = Inr True)"
    using rel by simp
  note inst = failed_dispatch_keeps_event_id[where f = ex_failing_func and event = ev42
      and w = "ex_world []" and events = "[ev43]" and cursor = "PInt 41", OF rel' api id nz fail]
  from inst have a: "for_events ex_listener ex_failing_func ex_types [ev42, ev43] (PInt 41) (ex_world [])
       = (Some (Fault ''sink down''), PInt 42, ex_world [], [ev42])" by blast
  from inst q' have "\<forall>e \<in> set [ev43, ev44]. \<exists>m. field e ''id'' = Some (PInt m) \<and> 42 < m"
    by blast
  then have b: "(\<exists>m. field ev43 ''id'' = Some (PInt m) \<and> 42 < m)
              \<and> (\<exists>m. field ev44 ''id'' = Some (PInt m) \<and> 42 < m)"
    by simp
  from rel api id nz fail a q b show ?thesis by blast
qed

text \<open>The claim as it was stated fails: the dispatch of event 42 raises, the cursor moves
  from 41 to 42 all the same, and the next pass asks for ids above 42 and finds nothing.\<close>

theorem failed_event_not_refetched_counterexample:
  "fst (sg_find_events (ex_filters @ [IdGreaterThan (PInt 41)]) (SG_EVENT_QUERY_FIELDS ex_listener)
          (world ex_state_one_event)) = Inr [ev42]
   \<and> last_event_id (projr (listen_loop ex_listener ex_failing_func ex_types 2 ex_state_one_event))
       = PInt 42
   \<and> trace (world (projr (listen_loop ex_listener ex_failing_func ex_types 2 ex_state_one_event)))
       = [SgFindEvents (ex_filters @ [IdGreaterThan (PInt 41)]), Sleep 10,
          SgFindEvents (ex_filters @ [IdGreaterThan (PInt 42)]), Sleep 10]
   \<and> logged (world (projr (listen_loop ex_listener ex_failing_func ex_types 2 ex_state_one_event)))
       = [LogInfoFound 1, LogErrorTraceback (Fault ''sink down''), LogDebugWaiting 2 10,
          LogDebugWaiting 1 10]"
  by code_simp

section \<open>Recovering the cursor from the AYON history\<close>

text \<open>Events are dispatched under the topic \<open>shotgrid.event\<close>, and the cursor is looked up
  under the topic \<open>shotgrid.leech\<close>: a dispatch never changes what the lookup finds.\<close>

lemma dispatch_not_under_queried_topic:
  assumes "send_shotgrid_event_to_ayon L payload w = (Inr v, payload', w')"
  shows "filter (\<lambda>ev. ev_topic ev \<in> set [''shotgrid.leech'']) (ayon_events w')
           = filter (\<lambda>ev. ev_topic ev \<in> set [''shotgrid.leech'']) (ayon_events w)"
proof -
  from send_ok(2)[OF assms] obtain ev where
    "ayon_events w' = ayon_events w @ [ev]" "ev_topic ev = ''shotgrid.event''"
    by blast
  then show ?thesis by simp
qed

text \<open>
  C1. The code does not do what the claim says. Event 42 is dispatched with success into
  an empty AYON history, which then holds one record with topic \<open>shotgrid.event\<close> and
  hash 42. \<^verbatim>\<open>_get_last_event_processed\<close> asks for the topic \<open>shotgrid.leech\<close>, gets
  nothing, queries ShotGrid for its newest matching event and returns that id, 44, not 42.
\<close>

theorem dispatched_event_not_found_by_cursor_query:
  "fst (send_shotgrid_event_to_ayon ex_listener ev42 (ex_world ex_log)) = Inr (PInt 42)
   \<and> map (\<lambda>ev. (ev_topic ev, ev_hash ev))
       (ayon_events (snd (snd (send_shotgrid_event_to_ayon ex_listener ev42 (ex_world ex_log)))))
       = [(''shotgrid.event'', PInt 42)]
   \<and> fst (ayon_get_events [''shotgrid.leech'']
            (snd (snd (send_shotgrid_event_to_ayon ex_listener ev42 (ex_world ex_log))))) = Inr []
   \<and> fst (get_last_event_processed ex_listener ex_filters
            (snd (snd (send_shotgrid_event_to_ayon ex_listener ev42 (ex_world ex_log))))) = Inr (PInt 44)
   \<and> trace (snd (get_last_event_processed ex_listener ex_filters
            (snd (snd (send_shotgrid_event_to_ayon ex_listener ev42 (ex_world ex_log))))))
       = [SgFindOneProject (PInt 1), AyonDispatchEvent ''shotgrid.event'' (PInt 42),
          AyonGetEvents [''shotgrid.leech''], SgFindOneEvent ex_filters]"
  by code_simp

end
